theory Spec2Isabelle
  imports Complex_Main "HOL-Library.List_Lexorder" "HOL-Library.Char_ord" "HOL-Library.Multiset"
begin

section \<open>Numbers and fixed-point columns\<close>

text \<open>
  Rates and amounts are rational numbers; a JavaScript number stands for the rational
  it denotes. The database columns are declared
  \<^verbatim>\<open>DECIMAL(p,s)\<close>: storing a value rounds it to \<open>s\<close> digits after the decimal
  point (half away from zero) and raises \<^verbatim>\<open>numeric_field_overflow\<close> when the rounded
  value needs more than \<open>p - s\<close> digits before the point.
  Timestamps (\<^verbatim>\<open>TIMESTAMP WITH TIME ZONE\<close>) are integers, \<^verbatim>\<open>NOW()\<close> is an argument.
\<close>

type_synonym timestamptz = int

datatype sql_error =
    numeric_field_overflow
  | division_by_zero
  | check_violation string
  | unique_violation string

definition round_half_away :: "nat \<Rightarrow> rat \<Rightarrow> rat" where
  "round_half_away s x =
     (if x < 0 then - (of_int \<lfloor>(- x) * 10 ^ s + 1 / 2\<rfloor> / 10 ^ s)
      else of_int \<lfloor>x * 10 ^ s + 1 / 2\<rfloor> / 10 ^ s)"

definition to_decimal :: "nat \<Rightarrow> nat \<Rightarrow> rat \<Rightarrow> sql_error + rat" where
  "to_decimal p s x =
     (let y = round_half_away s x
      in if 10 ^ (p - s) \<le> \<bar>y\<bar> then Inl numeric_field_overflow else Inr y)"

text \<open>
  A \<^verbatim>\<open>numeric\<close> argument is a decimal numeral: an integer and the number of digits
  written after the point (its display scale).
\<close>

record numeric =
  unscaled :: int
  dscale :: nat

definition numeric_value :: "numeric \<Rightarrow> rat" where
  "numeric_value n = of_int (unscaled n) / 10 ^ dscale n"

text \<open>
  The division of two \<^verbatim>\<open>numeric\<close> values rounds the quotient, half away from zero,
  to a result scale chosen from the operands (\<^verbatim>\<open>select_div_scale\<close> of PostgreSQL): at least
  sixteen significant digits, estimated from the weights and first digits of the operands
  in base 10000, and at least the display scale of either operand. The weight of a
  non-zero value \<open>x\<close> is the \<open>w\<close> with \<open>10000\<^sup>w \<le> \<bar>x\<bar> < 10000\<^sup>w\<^sup>+\<^sup>1\<close>, its first digit is
  \<open>\<lfloor>\<bar>x\<bar> / 10000\<^sup>w\<rfloor>\<close>; zero has weight and first digit 0. Sums, differences and
  products are exact.
\<close>

function nbase_up :: "int \<Rightarrow> int" where
  "nbase_up n = (if n < 10000 then 0 else 1 + nbase_up (n div 10000))"
  by pat_completeness auto
termination
  by (relation "measure nat") auto

function nbase_down :: "int \<Rightarrow> int \<Rightarrow> int" where
  "nbase_down a b = (if a \<le> 0 \<or> b \<le> a then 0 else 1 + nbase_down (a * 10000) b)"
  by pat_completeness auto
termination
  by (relation "measure (\<lambda>(a, b). nat (b - a))") auto

definition nbase_weight :: "rat \<Rightarrow> int" where
  "nbase_weight x =
     (let (a, b) = quotient_of \<bar>x\<bar>
      in if a = 0 then 0 else if b \<le> a then nbase_up (a div b) else - nbase_down a b)"

definition first_digit :: "rat \<Rightarrow> int" where
  "first_digit x =
     (let w = nbase_weight x
      in if 0 \<le> w then \<lfloor>\<bar>x\<bar> / 10000 ^ nat w\<rfloor> else \<lfloor>\<bar>x\<bar> * 10000 ^ nat (- w)\<rfloor>)"

definition select_div_scale :: "rat \<Rightarrow> nat \<Rightarrow> rat \<Rightarrow> nat \<Rightarrow> nat" where
  "select_div_scale x1 d1 x2 d2 =
     (let qweight = nbase_weight x1 - nbase_weight x2
                      - (if first_digit x1 \<le> first_digit x2 then 1 else 0);
          rscale = 16 - qweight * 4
      in min 1000 (max (nat rscale) (max d1 d2)))"

definition numeric_div :: "rat \<Rightarrow> nat \<Rightarrow> rat \<Rightarrow> nat \<Rightarrow> sql_error + rat \<times> nat" where
  "numeric_div x1 d1 x2 d2 =
     (if x2 = 0 then Inl division_by_zero
      else let rscale = select_div_scale x1 d1 x2 d2
           in Inr (round_half_away rscale (x1 / x2), rscale))"

section \<open>The tables of the multi-currency schema\<close>

text \<open>
  Table \<^verbatim>\<open>exchange_rates\<close>. The generated \<^verbatim>\<open>id\<close> and the bookkeeping columns
  \<^verbatim>\<open>created_at\<close>, \<^verbatim>\<open>updated_at\<close> are read by none of the functions below and are left out.
  \<open>er_effective_to = None\<close> is SQL \<^verbatim>\<open>NULL\<close>: the rate is currently active.
\<close>

record exchange_rates_row =
  er_base_currency :: string
  er_target_currency :: string
  er_rate :: rat
  er_source :: string
  er_is_manual_override :: bool
  er_effective_from :: timestamptz
  er_effective_to :: "timestamptz option"

record exchange_rate_history_row =
  erh_base_currency :: string
  erh_target_currency :: string
  erh_rate :: rat
  erh_previous_rate :: "rat option"
  erh_change_percentage :: "rat option"
  erh_source :: string
  erh_is_manual_override :: bool
  erh_recorded_at :: timestamptz

text \<open>
  Table \<^verbatim>\<open>currency_config\<close>. The columns \<^verbatim>\<open>symbol_position\<close> and \<^verbatim>\<open>decimal_places\<close>
  have a default and a check but may hold \<^verbatim>\<open>NULL\<close>, which is \<open>None\<close>; the check on
  \<^verbatim>\<open>decimal_places\<close> is \<open>\<ge> 0\<close> with no upper bound. The two flags are read only through
  tests for truth, for which \<^verbatim>\<open>NULL\<close> counts as false.
\<close>

datatype symbol_position = before | after

record currency_config_row =
  cc_id :: string
  cc_code :: string
  cc_name :: string
  cc_symbol :: string
  cc_symbol_position :: "symbol_position option"
  cc_decimal_places :: "nat option"
  cc_is_active :: bool
  cc_is_base_currency :: bool
  cc_created_at :: timestamptz
  cc_updated_at :: timestamptz

record database =
  exchange_rates :: "exchange_rates_row list"
  exchange_rate_history :: "exchange_rate_history_row list"
  currency_config :: "currency_config_row list"

definition empty_database :: database where
  "empty_database =
     \<lparr>exchange_rates = [], exchange_rate_history = [], currency_config = []\<rparr>"

section \<open>The SQL functions\<close>

text \<open>
  The \<^verbatim>\<open>WHERE\<close> clause shared by the three statements on \<^verbatim>\<open>exchange_rates\<close>:
  \<^verbatim>\<open>base_currency = b AND target_currency = t AND (effective_to IS NULL OR effective_to > NOW())\<close>.
\<close>

definition rate_row_matches :: "timestamptz \<Rightarrow> string \<Rightarrow> string \<Rightarrow> exchange_rates_row \<Rightarrow> bool" where
  "rate_row_matches now b t r \<longleftrightarrow>
     er_base_currency r = b \<and> er_target_currency r = t \<and>
     (case er_effective_to r of None \<Rightarrow> True | Some e \<Rightarrow> now < e)"

text \<open>
  \<^verbatim>\<open>ORDER BY effective_from DESC LIMIT 1\<close>: the row with the greatest
  \<open>effective_from\<close>. The unique constraint on (base, target, effective_from) leaves no
  ties among the rows of one pair; on a table that breaks it the earliest row in table
  order is taken.
\<close>

fun most_recent :: "exchange_rates_row list \<Rightarrow> exchange_rates_row option" where
  "most_recent [] = None"
| "most_recent (r # rs) =
     (case most_recent rs of
        None \<Rightarrow> Some r
      | Some r' \<Rightarrow> if er_effective_from r < er_effective_from r' then Some r' else Some r)"

definition select_current :: "database \<Rightarrow> timestamptz \<Rightarrow> string \<Rightarrow> string \<Rightarrow> exchange_rates_row option" where
  "select_current db now b t = most_recent (filter (rate_row_matches now b t) (exchange_rates db))"

text \<open>
  \<^verbatim>\<open>get_current_exchange_rate(p_base_currency, p_target_currency)\<close>. The variable
  \<^verbatim>\<open>current_rate\<close> is \<^verbatim>\<open>DECIMAL(15,8)\<close>, the type of the column, so the direct rate is
  stored in it unchanged and the reverse quotient \<^verbatim>\<open>1.0 / rate\<close> is coerced. For a rate of
  the column, with its eight decimal places, the result scale of that division is fine
  enough that rounding to it first does not change the eight places kept, so the
  quotient is rounded once.
\<close>

definition get_current_exchange_rate :: "database \<Rightarrow> timestamptz \<Rightarrow> string \<Rightarrow> string \<Rightarrow> sql_error + rat" where
  "get_current_exchange_rate db now p_base_currency p_target_currency =
     (if p_base_currency = p_target_currency then Inr 1
      else case select_current db now p_base_currency p_target_currency of
        Some r \<Rightarrow> Inr (er_rate r)
      | None \<Rightarrow>
          (case select_current db now p_target_currency p_base_currency of
             Some r \<Rightarrow>
               if er_rate r = 0 then Inl division_by_zero
               else to_decimal 15 8 (1 / er_rate r)
           | None \<Rightarrow> Inr 1))"

text \<open>
  \<^verbatim>\<open>update_exchange_rate(p_base_currency, p_target_currency, p_rate, p_source,
  p_is_manual_override)\<close>. The type modifiers of the parameters are discarded by
  \<^verbatim>\<open>CREATE FUNCTION\<close>, so \<open>p_rate\<close> enters the percentage as it was written; the variable
  \<^verbatim>\<open>previous_rate\<close> has the eight decimal places of the column and the variable
  \<^verbatim>\<open>change_percentage\<close> is \<^verbatim>\<open>DECIMAL(8,4)\<close>. In
  \<^verbatim>\<open>((p_rate - previous_rate) / previous_rate) * 100\<close> the difference is exact, the division
  rounds to its result scale, the product is exact, and the assignment rounds to four
  places. An error raised by any statement aborts the function and leaves the tables as
  they were.
\<close>

definition change_percentage_of :: "numeric \<Rightarrow> rat option \<Rightarrow> sql_error + rat option" where
  "change_percentage_of p_rate previous_rate =
     (case previous_rate of
        None \<Rightarrow> Inr None
      | Some prev \<Rightarrow>
          if 0 < prev then
            (case numeric_div (numeric_value p_rate - prev) (max (dscale p_rate) 8) prev 8 of
               Inl e \<Rightarrow> Inl e
             | Inr (q, rscale) \<Rightarrow>
                 (case to_decimal 8 4 (q * 100) of
                    Inl e \<Rightarrow> Inl e
                  | Inr c \<Rightarrow> Inr (Some c)))
          else Inr None)"

definition end_active_rates :: "timestamptz \<Rightarrow> string \<Rightarrow> string \<Rightarrow> exchange_rates_row list \<Rightarrow> sql_error + exchange_rates_row list" where
  "end_active_rates now b t rows =
     (if \<exists>r \<in> set rows. rate_row_matches now b t r \<and> \<not> er_effective_from r < now
      then Inl (check_violation ''exchange_rates_effective_dates'')
      else Inr (map (\<lambda>r. if rate_row_matches now b t r then r\<lparr>er_effective_to := Some now\<rparr> else r) rows))"

definition insert_rate :: "exchange_rates_row \<Rightarrow> exchange_rates_row list \<Rightarrow> sql_error + exchange_rates_row list" where
  "insert_rate new rows =
     (if \<not> 0 < er_rate new then Inl (check_violation ''exchange_rates_rate_positive'')
      else if \<exists>r \<in> set rows.
                er_base_currency r = er_base_currency new \<and>
                er_target_currency r = er_target_currency new \<and>
                er_effective_from r = er_effective_from new
      then Inl (unique_violation ''exchange_rates_unique_active'')
      else Inr (rows @ [new]))"

definition insert_history :: "exchange_rate_history_row \<Rightarrow> exchange_rate_history_row list \<Rightarrow> sql_error + exchange_rate_history_row list" where
  "insert_history h rows =
     (if \<not> 0 < erh_rate h then Inl (check_violation ''exchange_rate_history_rate_positive'')
      else if (case erh_previous_rate h of None \<Rightarrow> False | Some p \<Rightarrow> \<not> 0 < p)
      then Inl (check_violation ''exchange_rate_history_previous_rate_positive'')
      else Inr (rows @ [h]))"

definition update_exchange_rate ::
  "timestamptz \<Rightarrow> string \<Rightarrow> string \<Rightarrow> numeric \<Rightarrow> string \<Rightarrow> bool \<Rightarrow> database \<Rightarrow> sql_error + database" where
  "update_exchange_rate now p_base_currency p_target_currency p_rate p_source p_is_manual_override db =
     (let previous_rate =
            map_option er_rate (select_current db now p_base_currency p_target_currency)
      in case change_percentage_of p_rate previous_rate of
        Inl e \<Rightarrow> Inl e
      | Inr change_percentage \<Rightarrow>
      (case end_active_rates now p_base_currency p_target_currency (exchange_rates db) of
        Inl e \<Rightarrow> Inl e
      | Inr ended \<Rightarrow>
      (case to_decimal 15 8 (numeric_value p_rate) of
        Inl e \<Rightarrow> Inl e
      | Inr stored_rate \<Rightarrow>
      (case insert_rate
              \<lparr>er_base_currency = p_base_currency, er_target_currency = p_target_currency,
               er_rate = stored_rate, er_source = p_source,
               er_is_manual_override = p_is_manual_override,
               er_effective_from = now, er_effective_to = None\<rparr> ended of
        Inl e \<Rightarrow> Inl e
      | Inr rates' \<Rightarrow>
      (case insert_history
              \<lparr>erh_base_currency = p_base_currency, erh_target_currency = p_target_currency,
               erh_rate = stored_rate, erh_previous_rate = previous_rate,
               erh_change_percentage = change_percentage, erh_source = p_source,
               erh_is_manual_override = p_is_manual_override, erh_recorded_at = now\<rparr>
              (exchange_rate_history db) of
        Inl e \<Rightarrow> Inl e
      | Inr history' \<Rightarrow>
          Inr (db\<lparr>exchange_rates := rates', exchange_rate_history := history'\<rparr>))))))"

text \<open>
  A sequence of update calls, each with its own \<^verbatim>\<open>NOW()\<close>. A call that raises is rolled
  back and the next one runs on the unchanged tables.
\<close>

record update_call =
  uc_now :: timestamptz
  uc_base_currency :: string
  uc_target_currency :: string
  uc_rate :: numeric
  uc_source :: string
  uc_is_manual_override :: bool

definition run_update :: "update_call \<Rightarrow> database \<Rightarrow> sql_error + database" where
  "run_update c db =
     update_exchange_rate (uc_now c) (uc_base_currency c) (uc_target_currency c) (uc_rate c)
       (uc_source c) (uc_is_manual_override c) db"

fun run_updates :: "update_call list \<Rightarrow> database \<Rightarrow> database" where
  "run_updates [] db = db"
| "run_updates (c # cs) db =
     (case run_update c db of Inl e \<Rightarrow> run_updates cs db | Inr db' \<Rightarrow> run_updates cs db')"

text \<open>The number of records of a pair with \<open>effectiveTo = null\<close>.\<close>

definition open_rates :: "database \<Rightarrow> string \<Rightarrow> string \<Rightarrow> exchange_rates_row list" where
  "open_rates db b t =
     filter (\<lambda>r. er_base_currency r = b \<and> er_target_currency r = t \<and> er_effective_to r = None)
       (exchange_rates db)"

definition supersession_invariant :: "database \<Rightarrow> bool" where
  "supersession_invariant db \<longleftrightarrow> (\<forall>b t. length (open_rates db b t) \<le> 1)"


section \<open>The client: \<^verbatim>\<open>CurrencyUtils\<close>\<close>

text \<open>
  The class talks to the backend through the Supabase client and keeps the static map
  \<^verbatim>\<open>cachedRates\<close>. A call reads the client clock (\<^verbatim>\<open>Date.now()\<close>, milliseconds), the
  backend reads its own clock (\<^verbatim>\<open>NOW()\<close>), and a request either reaches the backend or
  fails in transport. The world is the backend's tables, the cache and the log of the
  requests sent so far.
\<close>

datatype error =
    FetchError
  | PostgresError sql_error
  | PGRST116
  | RangeError

datatype request = rpc string | select_from string

record env =
  date_now :: int
  db_now :: timestamptz
  online :: bool

record cache_entry =
  ce_rate :: rat
  ce_timestamp :: int

record world =
  backend :: database
  cachedRates :: "string \<rightharpoonup> cache_entry"
  requests :: "request list"

record CurrencyConfig =
  id' :: string
  code :: string
  name :: string
  symbol :: string
  symbolPosition :: "symbol_position option"
  decimalPlaces :: "nat option"
  isActive :: bool
  isBaseCurrency :: bool
  createdAt :: timestamptz
  updatedAt :: timestamptz

record CurrencyConversion =
  originalAmount :: rat
  convertedAmount :: rat
  fromCurrency :: string
  toCurrency :: string
  exchangeRate :: rat
  timestamp :: int

definition CACHE_DURATION :: int where
  "CACHE_DURATION = 5 * 60 * 1000"

definition cacheKey :: "string \<Rightarrow> string \<Rightarrow> string" where
  "cacheKey baseCurrency targetCurrency = baseCurrency @ ''_'' @ targetCurrency"

definition send :: "request \<Rightarrow> world \<Rightarrow> world" where
  "send q w = w\<lparr>requests := requests w @ [q]\<rparr>"

definition to_config :: "currency_config_row \<Rightarrow> CurrencyConfig" where
  "to_config currency =
     \<lparr>id' = cc_id currency, code = cc_code currency, name = cc_name currency,
      symbol = cc_symbol currency, symbolPosition = cc_symbol_position currency,
      decimalPlaces = cc_decimal_places currency, isActive = cc_is_active currency,
      isBaseCurrency = cc_is_base_currency currency,
      createdAt = cc_created_at currency, updatedAt = cc_updated_at currency\<rparr>"

text \<open>
  \<^verbatim>\<open>from('currency_config').select('*').eq('is_active', true).order('code')\<close>; the
  order of codes is the lexicographic order of their characters.
\<close>

definition select_active_currencies :: "database \<Rightarrow> currency_config_row list" where
  "select_active_currencies db = sort_key cc_code (filter cc_is_active (currency_config db))"

definition getSupportedCurrencies :: "env \<Rightarrow> world \<Rightarrow> (error + CurrencyConfig list) \<times> world" where
  "getSupportedCurrencies e w =
     (let w' = send (select_from ''currency_config'') w
      in if \<not> online e then (Inl FetchError, w')
         else (Inr (map to_config (select_active_currencies (backend w'))), w'))"

text \<open>
  \<^verbatim>\<open>from('currency_config').select('*').eq('is_base_currency', true).eq('is_active', true)\<close>,
  and \<^verbatim>\<open>.single()\<close> of the Supabase client: the row when the result has exactly one, and
  the error with code PGRST116 when it has none or several.
\<close>

definition select_base_currencies :: "database \<Rightarrow> currency_config_row list" where
  "select_base_currencies db =
     filter (\<lambda>r. cc_is_base_currency r \<and> cc_is_active r) (currency_config db)"

definition single :: "'a list \<Rightarrow> error + 'a" where
  "single rows = (case rows of [r] \<Rightarrow> Inr r | _ \<Rightarrow> Inl PGRST116)"

definition getBaseCurrency :: "env \<Rightarrow> world \<Rightarrow> (error + CurrencyConfig) \<times> world" where
  "getBaseCurrency e w =
     (let w' = send (select_from ''currency_config'') w
      in if \<not> online e then (Inl FetchError, w')
         else case single (select_base_currencies (backend w')) of
                Inl err \<Rightarrow> (Inl err, w')
              | Inr data \<Rightarrow> (Inr (to_config data), w'))"

text \<open>\<^verbatim>\<open>supabase.rpc('get_current_exchange_rate', ...)\<close>\<close>

definition rpc_get_current_exchange_rate :: "env \<Rightarrow> string \<Rightarrow> string \<Rightarrow> world \<Rightarrow> (error + rat) \<times> world" where
  "rpc_get_current_exchange_rate e b t w =
     (let w' = send (rpc ''get_current_exchange_rate'') w
      in if \<not> online e then (Inl FetchError, w')
         else case get_current_exchange_rate (backend w') (db_now e) b t of
                Inl err \<Rightarrow> (Inl (PostgresError err), w')
              | Inr data \<Rightarrow> (Inr data, w'))"

text \<open>The test \<^verbatim>\<open>cached && (now - cached.timestamp) < CACHE_DURATION\<close>.\<close>

definition cache_hit :: "world \<Rightarrow> int \<Rightarrow> string \<Rightarrow> rat option" where
  "cache_hit w now key =
     (case cachedRates w key of
        None \<Rightarrow> None
      | Some cached \<Rightarrow> if now - ce_timestamp cached < CACHE_DURATION then Some (ce_rate cached) else None)"

text \<open>
  \<^verbatim>\<open>getCurrentExchangeRate\<close>. Everything thrown inside the \<^verbatim>\<open>try\<close> block is caught
  and answered with 1.0, so the result carries no error. \<^verbatim>\<open>data || 1.0\<close> replaces a zero.
\<close>

definition getCurrentExchangeRate :: "env \<Rightarrow> string \<Rightarrow> string \<Rightarrow> world \<Rightarrow> rat \<times> world" where
  "getCurrentExchangeRate e baseCurrency targetCurrency w =
     (if baseCurrency = targetCurrency then (1, w)
      else
        let key = cacheKey baseCurrency targetCurrency; now = date_now e
        in case cache_hit w now key of
             Some r \<Rightarrow> (r, w)
           | None \<Rightarrow>
               (case rpc_get_current_exchange_rate e baseCurrency targetCurrency w of
                  (Inl err, w') \<Rightarrow> (1, w')
                | (Inr data, w') \<Rightarrow>
                    let r = (if data = 0 then 1 else data)
                    in (r, w'\<lparr>cachedRates := (cachedRates w')(key \<mapsto> \<lparr>ce_rate = r, ce_timestamp = now\<rparr>)\<rparr>)))"

definition convertCurrency :: "env \<Rightarrow> rat \<Rightarrow> string \<Rightarrow> string \<Rightarrow> world \<Rightarrow> CurrencyConversion \<times> world" where
  "convertCurrency e amount from to w =
     (case getCurrentExchangeRate e from to w of
        (r, w') \<Rightarrow>
          (\<lparr>originalAmount = amount, convertedAmount = amount * r, fromCurrency = from,
            toCurrency = to, exchangeRate = r, timestamp = date_now e\<rparr>, w'))"

text \<open>
  \<^verbatim>\<open>updateExchangeRate\<close>, its optional arguments given; the rate is the decimal numeral
  the request carries. The cache entry of the pair is deleted only after the remote call
  has succeeded; a failure is logged and thrown again.
\<close>

definition updateExchangeRate ::
  "env \<Rightarrow> string \<Rightarrow> string \<Rightarrow> numeric \<Rightarrow> string \<Rightarrow> bool \<Rightarrow> world \<Rightarrow> (error + unit) \<times> world" where
  "updateExchangeRate e baseCurrency targetCurrency r src isManualOverride w =
     (let w' = send (rpc ''update_exchange_rate'') w
      in if \<not> online e then (Inl FetchError, w')
         else case update_exchange_rate (db_now e) baseCurrency targetCurrency r src
                     isManualOverride (backend w') of
                Inl err \<Rightarrow> (Inl (PostgresError err), w')
              | Inr db' \<Rightarrow>
                  (Inr (), w'\<lparr>backend := db',
                               cachedRates := (cachedRates w')(cacheKey baseCurrency targetCurrency := None)\<rparr>))"

text \<open>
  \<^verbatim>\<open>Number.prototype.toFixed\<close>. The digits argument, converted to an integer (\<^verbatim>\<open>null\<close>
  becomes 0), must lie in 0..100; a value that is not finite is written by name; below
  \<open>10\<^sup>2\<^sup>1\<close> the number is rounded to the nearest multiple of \<open>10\<^sup>-\<^sup>f\<close>, the larger one
  on a tie, and written with \<open>f\<close> digits after the point. From \<open>10\<^sup>2\<^sup>1\<close> on the result
  is the exponent notation of \<^verbatim>\<open>Number::toString\<close>, which is the argument \<open>toString\<close>.
\<close>

datatype number = Finite rat | NaN | PlusInfinity | MinusInfinity

definition ToIntegerOrInfinity :: "nat option \<Rightarrow> nat" where
  "ToIntegerOrInfinity fractionDigits = (case fractionDigits of None \<Rightarrow> 0 | Some f \<Rightarrow> f)"

definition digit_char :: "nat \<Rightarrow> char" where
  "digit_char n = ''0123456789'' ! (n mod 10)"

fun digits :: "nat \<Rightarrow> string" where
  "digits n = (if n < 10 then [digit_char n] else digits (n div 10) @ [digit_char n])"

definition toFixed :: "(rat \<Rightarrow> string) \<Rightarrow> number \<Rightarrow> nat option \<Rightarrow> error + string" where
  "toFixed toString x fractionDigits =
     (let f = ToIntegerOrInfinity fractionDigits
      in if 100 < f then Inl RangeError
         else case x of
           NaN \<Rightarrow> Inr ''NaN''
         | PlusInfinity \<Rightarrow> Inr ''Infinity''
         | MinusInfinity \<Rightarrow> Inr ''-Infinity''
         | Finite x \<Rightarrow>
             let s = (if x < 0 then ''-'' else []);
                 x = (if x < 0 then - x else x)
             in if 10 ^ 21 \<le> x then Inr (s @ toString x)
                else
                  let n = nat \<lfloor>x * 10 ^ f + 1 / 2\<rfloor>;
                      m = digits n
                  in if f \<noteq> 0 then
                       let k = length m;
                           m = (if k \<le> f then replicate (f + 1 - k) CHR ''0'' @ m else m);
                           k = (if k \<le> f then f + 1 else k);
                           a = take (k - f) m;
                           b = drop (k - f) m
                       in Inr (s @ a @ ''.'' @ b)
                     else Inr (s @ m))"

definition formatCurrency ::
  "(rat \<Rightarrow> string) \<Rightarrow> env \<Rightarrow> number \<Rightarrow> string \<Rightarrow> world \<Rightarrow> (error + string) \<times> world" where
  "formatCurrency toString e amount currencyCode w =
     (case getSupportedCurrencies e w of
        (Inl err, w') \<Rightarrow> (Inl err, w')
      | (Inr currencies, w') \<Rightarrow>
          (case find (\<lambda>c. code c = currencyCode) currencies of
             None \<Rightarrow>
               (case toFixed toString amount (Some 2) of
                  Inl err \<Rightarrow> (Inl err, w')
                | Inr a \<Rightarrow> (Inr (currencyCode @ '' '' @ a), w'))
           | Some currency \<Rightarrow>
               (case toFixed toString amount (decimalPlaces currency) of
                  Inl err \<Rightarrow> (Inl err, w')
                | Inr formattedAmount \<Rightarrow>
                    if symbolPosition currency = Some before
                    then (Inr (symbol currency @ formattedAmount), w')
                    else (Inr (formattedAmount @ '' '' @ symbol currency), w'))))"

text \<open>
  The rendering the specification asks of \<^verbatim>\<open>format\<close>, "amount fixed to
  decimalPlaces": the sign, the digits of the integer part and, when \<open>f > 0\<close>, a point
  and exactly \<open>f\<close> digits, of the amount rounded to the nearest multiple of \<open>10\<^sup>-\<^sup>f\<close>.
  \<open>decimals_of\<close> counts the characters after the point of such a string.
\<close>

fun low_digits :: "nat \<Rightarrow> nat \<Rightarrow> string" where
  "low_digits f n = (if f = 0 then [] else low_digits (f - 1) (n div 10) @ [digit_char n])"

definition fixed_notation :: "rat \<Rightarrow> nat \<Rightarrow> string" where
  "fixed_notation x f =
     (let n = nat \<lfloor>\<bar>x\<bar> * 10 ^ f + 1 / 2\<rfloor>
      in (if x < 0 then ''-'' else []) @ digits (n div 10 ^ f) @
         (if f = 0 then [] else ''.'' @ low_digits f n))"

definition decimals_of :: "string \<Rightarrow> nat" where
  "decimals_of s = length (tl (dropWhile (\<lambda>c. c \<noteq> CHR ''.'') s))"

text \<open>
  The number a decimal string denotes, read from its characters: an optional minus sign,
  the digits before the point and the digits after it. A digit is worth its character
  code less that of \<^verbatim>\<open>0\<close>.
\<close>

definition digit_value :: "char \<Rightarrow> nat" where
  "digit_value c = of_char c - 48"

definition read_digits :: "string \<Rightarrow> nat" where
  "read_digits s = foldl (\<lambda>n c. 10 * n + digit_value c) 0 s"

definition read_fixed :: "string \<Rightarrow> rat" where
  "read_fixed s =
     (let negative = (s \<noteq> [] \<and> hd s = CHR ''-'');
          body = (if negative then tl s else s);
          whole = takeWhile (\<lambda>c. c \<noteq> CHR ''.'') body;
          fraction = tl (dropWhile (\<lambda>c. c \<noteq> CHR ''.'') body);
          magnitude = of_nat (read_digits whole)
                        + of_nat (read_digits fraction) / 10 ^ length fraction
      in if negative then - magnitude else magnitude)"

definition is_decimal_char :: "char \<Rightarrow> bool" where
  "is_decimal_char c \<longleftrightarrow> c \<in> set ''-.0123456789''"

section \<open>Discount conditions and pricing\<close>

text \<open>
  The repository declares the types \<^verbatim>\<open>Discount\<close>, \<^verbatim>\<open>DiscountCondition\<close>, \<^verbatim>\<open>CartItem\<close>,
  \<^verbatim>\<open>AppliedDiscount\<close> and \<^verbatim>\<open>Sale\<close>; the functions that evaluate conditions and price a
  cart are not among the sources. The types follow the declarations, the functions follow
  sections 4.5 and 4.6 of the specification. A cart line keeps the fields the pricing
  steps read (product, unit price, quantity, weight); the context carries the payment and
  customer fields the conditions refer to, the current instant and weekday, and the
  sale's tax rate in percent.
\<close>

datatype discount_type = percentage | fixed | bogo | free_gift

datatype condition_type =
  min_amount | specific_products | payment_method | customer_tier | card_type | bank_name

datatype operator = equals | greater_than | less_than | in_array

text \<open>The field \<^verbatim>\<open>value: any\<close> holds a number, a string or a list of strings.\<close>

datatype condition_value = Num rat | Str string | Strs "string list"

record DiscountCondition =
  dc_type :: condition_type
  dc_value :: condition_value
  dc_operator :: "operator option"
  dc_minQuantity :: "nat option"

record Discount =
  d_id :: string
  d_name :: string
  d_type :: discount_type
  d_value :: rat
  d_conditions :: "DiscountCondition list"
  d_freeGiftProducts :: "string list option"
  d_minAmount :: "rat option"
  d_maxDiscount :: "rat option"
  d_validFrom :: int
  d_validTo :: int
  d_validDays :: "nat list option"
  d_active :: bool

record CartLine =
  cl_productRef :: string
  cl_unitPrice :: rat
  cl_quantity :: rat
  cl_weight :: "rat option"

record CartContext =
  cx_lines :: "CartLine list"
  cx_paymentMethod :: "string option"
  cx_customerTier :: "string option"
  cx_cardType :: "string option"
  cx_bankName :: "string option"
  cx_instant :: int
  cx_weekday :: nat
  cx_taxRate :: rat

record AppliedDiscount =
  ad_discountId :: string
  ad_discountName :: string
  ad_discountAmount :: rat
  ad_type :: discount_type

record PricedCartSnapshot =
  pc_subtotal :: rat
  pc_discountAmount :: rat
  pc_taxAmount :: rat
  pc_total :: rat
  pc_appliedDiscounts :: "AppliedDiscount list"
  pc_freeGifts :: "CartLine list"

text \<open>
  Modelled from the spec: the hard error of section 7 for a structurally invalid cart.
\<close>

datatype pricing_error = InvalidCartError

text \<open>
  Modelled from the spec: the units of a cart line (the pricing code is not in the
  sources): "quantity x unit price, or weight x price-per-unit for weight-based lines".
\<close>

definition line_units :: "CartLine \<Rightarrow> rat" where
  "line_units l = (case cl_weight l of None \<Rightarrow> cl_quantity l | Some wt \<Rightarrow> wt)"

text \<open>
  Modelled from the spec: step 1 of \<^verbatim>\<open>DiscountEngine.price\<close>, the raw subtotal
  of the cart lines before any discount.
\<close>

definition raw_subtotal :: "CartLine list \<Rightarrow> rat" where
  "raw_subtotal ls = sum_list (map (\<lambda>l. line_units l * cl_unitPrice l) ls)"

text \<open>
  Modelled from the spec: the total units of the cart across a referenced product set,
  used by the \<^verbatim>\<open>specific_products\<close> condition.
\<close>

definition units_of_products :: "string list \<Rightarrow> CartLine list \<Rightarrow> rat" where
  "units_of_products ps ls =
     sum_list (map line_units (filter (\<lambda>l. cl_productRef l \<in> set ps) ls))"

text \<open>
  Modelled from the spec: the "referenced product set" of a \<^verbatim>\<open>specific_products\<close>
  condition, read from its value: a list of product references, or a single one.
\<close>

definition referenced_products :: "condition_value \<Rightarrow> string list" where
  "referenced_products v = (case v of Strs ps \<Rightarrow> ps | Str p \<Rightarrow> [p] | Num _ \<Rightarrow> [])"

text \<open>
  Modelled from the spec: the "equality (or operator-directed comparison: equals,
  greater_than, less_than, in_array)" of a field of the context, which is present here,
  against the value of the condition. A missing operator means equality; the order of
  strings is the lexicographic one; a value of the wrong shape matches nothing.
\<close>

definition compare_field :: "operator option \<Rightarrow> condition_value \<Rightarrow> string \<Rightarrow> bool" where
  "compare_field op v field =
     (case (case op of None \<Rightarrow> equals | Some o' \<Rightarrow> o') of
        equals \<Rightarrow> (case v of Str s \<Rightarrow> field = s | _ \<Rightarrow> False)
      | in_array \<Rightarrow> (case v of Strs ss \<Rightarrow> field \<in> set ss | _ \<Rightarrow> False)
      | greater_than \<Rightarrow> (case v of Str s \<Rightarrow> s < field | _ \<Rightarrow> False)
      | less_than \<Rightarrow> (case v of Str s \<Rightarrow> field < s | _ \<Rightarrow> False))"

text \<open>
  Modelled from the spec: the look-up of the field a condition refers to. "If the
  relevant field is absent from the context ..., the condition evaluates to false".
\<close>

definition match_field :: "DiscountCondition \<Rightarrow> string option \<Rightarrow> bool" where
  "match_field c field =
     (case field of
        None \<Rightarrow> False
      | Some f \<Rightarrow> compare_field (dc_operator c) (dc_value c) f)"

text \<open>
  Modelled from the spec: \<^verbatim>\<open>DiscountConditionEvaluator.matches(condition, cartContext)\<close>
  of section 4.5 (no evaluator is among the sources). \<^verbatim>\<open>min_amount\<close> compares the
  subtotal before discount, \<^verbatim>\<open>specific_products\<close> counts units with a default minimum
  quantity of 1, the four remaining types compare a field of the context.
\<close>

definition matches :: "DiscountCondition \<Rightarrow> CartContext \<Rightarrow> bool" where
  "matches c cx =
     (case dc_type c of
        min_amount \<Rightarrow>
          (case dc_value c of Num v \<Rightarrow> v \<le> raw_subtotal (cx_lines cx) | _ \<Rightarrow> False)
      | specific_products \<Rightarrow>
          of_nat (case dc_minQuantity c of None \<Rightarrow> 1 | Some q \<Rightarrow> q)
            \<le> units_of_products (referenced_products (dc_value c)) (cx_lines cx)
      | payment_method \<Rightarrow> match_field c (cx_paymentMethod cx)
      | customer_tier \<Rightarrow> match_field c (cx_customerTier cx)
      | card_type \<Rightarrow> match_field c (cx_cardType cx)
      | bank_name \<Rightarrow> match_field c (cx_bankName cx))"

text \<open>
  Modelled from the spec: "A discount's conditions are combined with logical AND: a
  discount applies only if every condition evaluates true."
\<close>

definition conditions_hold :: "Discount \<Rightarrow> CartContext \<Rightarrow> bool" where
  "conditions_hold d cx = list_all (\<lambda>c. matches c cx) (d_conditions d)"

text \<open>
  Modelled from the spec: step 2 of \<^verbatim>\<open>price\<close>, the discounts that are active, whose
  validity window contains the current instant and whose valid days, when present,
  contain the current weekday.
\<close>

definition in_window :: "Discount \<Rightarrow> CartContext \<Rightarrow> bool" where
  "in_window d cx \<longleftrightarrow>
     d_active d \<and> d_validFrom d \<le> cx_instant cx \<and> cx_instant cx \<le> d_validTo d \<and>
     (case d_validDays d of None \<Rightarrow> True | Some days \<Rightarrow> cx_weekday cx \<in> set days)"

text \<open>
  Modelled from the spec: the \<^verbatim>\<open>bogo\<close> contribution of step 4: over the lines of the
  products named by the discount's \<^verbatim>\<open>specific_products\<close> condition, every full group of
  N units (N the condition's minimum quantity) discounts one unit at its full price.
\<close>

definition bogo_amount :: "Discount \<Rightarrow> CartLine list \<Rightarrow> rat" where
  "bogo_amount d ls =
     (case find (\<lambda>c. dc_type c = specific_products) (d_conditions d) of
        None \<Rightarrow> 0
      | Some c \<Rightarrow>
          let n = (case dc_minQuantity c of None \<Rightarrow> 1 | Some q \<Rightarrow> q)
          in if n = 0 then 0
             else sum_list
                    (map (\<lambda>l. of_int (\<lfloor>line_units l\<rfloor> div int n) * cl_unitPrice l)
                       (filter (\<lambda>l. cl_productRef l \<in> set (referenced_products (dc_value c))) ls)))"

text \<open>
  Modelled from the spec: the contribution of one surviving discount in step 4, given
  the subtotal and the amount discounted so far: a percentage capped at
  \<^verbatim>\<open>maxDiscount\<close> and at the subtotal, a fixed value capped at the remaining subtotal, the
  \<^verbatim>\<open>bogo\<close> amount, and nothing for a free gift.
\<close>

definition contribution :: "Discount \<Rightarrow> CartLine list \<Rightarrow> rat \<Rightarrow> rat \<Rightarrow> rat" where
  "contribution d ls subtotal so_far =
     (case d_type d of
        percentage \<Rightarrow>
          (let p = subtotal * d_value d / 100;
               p = (case d_maxDiscount d of None \<Rightarrow> p | Some cap \<Rightarrow> min p cap)
           in min p subtotal)
      | fixed \<Rightarrow> min (d_value d) (subtotal - so_far)
      | bogo \<Rightarrow> bogo_amount d ls
      | free_gift \<Rightarrow> 0)"

text \<open>
  Modelled from the spec: the free-gift lines of a discount, "the referenced product(s)
  as zero-price CartLines".
\<close>

definition gift_lines :: "Discount \<Rightarrow> CartLine list" where
  "gift_lines d =
     (if d_type d = free_gift
      then map (\<lambda>p. \<lparr>cl_productRef = p, cl_unitPrice = 0, cl_quantity = 1, cl_weight = None\<rparr>)
             (case d_freeGiftProducts d of None \<Rightarrow> [] | Some ps \<Rightarrow> ps)
      else [])"

text \<open>
  Modelled from the spec: steps 2 to 4 and 6 of \<^verbatim>\<open>price\<close> as one pass over the
  discounts in declaration order. A discount is skipped when it is outside its window,
  when a condition fails on the pre-discount subtotal, or when its \<^verbatim>\<open>minAmount\<close> is not
  met; it is recorded when it contributed a non-zero amount or added a gift.
\<close>

fun apply_discounts ::
  "CartContext \<Rightarrow> rat \<Rightarrow> Discount list \<Rightarrow> rat \<times> AppliedDiscount list \<times> CartLine list
     \<Rightarrow> rat \<times> AppliedDiscount list \<times> CartLine list" where
  "apply_discounts cx subtotal [] acc = acc"
| "apply_discounts cx subtotal (d # ds) (so_far, applied, gifts) =
     (if in_window d cx \<and> conditions_hold d cx \<and>
         (case d_minAmount d of None \<Rightarrow> True | Some m \<Rightarrow> m \<le> subtotal)
      then
        let amount = contribution d (cx_lines cx) subtotal so_far;
            g = gift_lines d
        in if amount \<noteq> 0 \<or> g \<noteq> []
           then apply_discounts cx subtotal ds
                  (so_far + amount,
                   applied @ [\<lparr>ad_discountId = d_id d, ad_discountName = d_name d,
                                ad_discountAmount = amount, ad_type = d_type d\<rparr>],
                   gifts @ g)
           else apply_discounts cx subtotal ds (so_far, applied, gifts)
      else apply_discounts cx subtotal ds (so_far, applied, gifts))"

text \<open>
  Modelled from the spec: the structural validity of a cart: it has lines and no line
  has a negative quantity or weight.
\<close>

definition valid_cart :: "CartContext \<Rightarrow> bool" where
  "valid_cart cx \<longleftrightarrow> cx_lines cx \<noteq> [] \<and> list_all (\<lambda>l. 0 \<le> line_units l) (cx_lines cx)"

text \<open>
  Modelled from the spec: \<^verbatim>\<open>DiscountEngine.price\<close> of section 4.6 (the engine is not
  among the sources). Step 5: the tax is computed on the post-discount subtotal at the
  sale's tax rate (a percentage), and "total = subtotal - discountAmount + taxAmount,
  floored at zero". A structurally invalid cart is a hard error.
\<close>

definition price :: "CartContext \<Rightarrow> Discount list \<Rightarrow> pricing_error + PricedCartSnapshot" where
  "price cx discounts =
     (if \<not> valid_cart cx then Inl InvalidCartError
      else
        let subtotal = raw_subtotal (cx_lines cx);
            (discountAmount, applied, gifts) = apply_discounts cx subtotal discounts (0, [], []);
            taxAmount = (subtotal - discountAmount) * cx_taxRate cx / 100;
            total = max 0 (subtotal - discountAmount + taxAmount)
        in Inr \<lparr>pc_subtotal = subtotal, pc_discountAmount = discountAmount,
                pc_taxAmount = taxAmount, pc_total = total,
                pc_appliedDiscounts = applied, pc_freeGifts = gifts\<rparr>)"


section \<open>Example states\<close>

text \<open>The rates 0.85, 0.9, 0.5 and 2 as they are written.\<close>

definition rate_085 :: numeric where
  "rate_085 = \<lparr>unscaled = 85, dscale = 2\<rparr>"

definition rate_09 :: numeric where
  "rate_09 = \<lparr>unscaled = 9, dscale = 1\<rparr>"

definition rate_05 :: numeric where
  "rate_05 = \<lparr>unscaled = 5, dscale = 1\<rparr>"

definition rate_2 :: numeric where
  "rate_2 = \<lparr>unscaled = 2, dscale = 0\<rparr>"

text \<open>Two updates of the pair (USD, EUR) on empty tables, at the instants 1 and 2.\<close>

definition ex_call1 :: update_call where
  "ex_call1 =
     \<lparr>uc_now = 1, uc_base_currency = ''USD'', uc_target_currency = ''EUR'', uc_rate = rate_085,
      uc_source = ''api'', uc_is_manual_override = False\<rparr>"

definition ex_call2 :: update_call where
  "ex_call2 =
     \<lparr>uc_now = 2, uc_base_currency = ''USD'', uc_target_currency = ''EUR'', uc_rate = rate_09,
      uc_source = ''manual'', uc_is_manual_override = True\<rparr>"

text \<open>
  Two updates whose exact quotient, 1.50000049999..., lies just below a tie of the fourth
  decimal place of the percentage: from 2000.00000001 to 5000.001000025.
\<close>

definition ex_call3 :: update_call where
  "ex_call3 =
     \<lparr>uc_now = 1, uc_base_currency = ''USD'', uc_target_currency = ''LKR'',
      uc_rate = \<lparr>unscaled = 200000000001, dscale = 8\<rparr>,
      uc_source = ''api'', uc_is_manual_override = False\<rparr>"

definition ex_call4 :: update_call where
  "ex_call4 =
     \<lparr>uc_now = 2, uc_base_currency = ''USD'', uc_target_currency = ''LKR'',
      uc_rate = \<lparr>unscaled = 5000001000025, dscale = 9\<rparr>,
      uc_source = ''api'', uc_is_manual_override = False\<rparr>"

definition ex_db1 :: database where
  "ex_db1 =
     \<lparr>exchange_rates =
        [\<lparr>er_base_currency = ''USD'', er_target_currency = ''EUR'', er_rate = 85 / 100,
          er_source = ''api'', er_is_manual_override = False, er_effective_from = 1,
          er_effective_to = None\<rparr>],
      exchange_rate_history =
        [\<lparr>erh_base_currency = ''USD'', erh_target_currency = ''EUR'', erh_rate = 85 / 100,
          erh_previous_rate = None, erh_change_percentage = None, erh_source = ''api'',
          erh_is_manual_override = False, erh_recorded_at = 1\<rparr>],
      currency_config = []\<rparr>"

definition ex_db2 :: database where
  "ex_db2 =
     \<lparr>exchange_rates =
        [\<lparr>er_base_currency = ''USD'', er_target_currency = ''EUR'', er_rate = 85 / 100,
          er_source = ''api'', er_is_manual_override = False, er_effective_from = 1,
          er_effective_to = Some 2\<rparr>,
         \<lparr>er_base_currency = ''USD'', er_target_currency = ''EUR'', er_rate = 9 / 10,
          er_source = ''manual'', er_is_manual_override = True, er_effective_from = 2,
          er_effective_to = None\<rparr>],
      exchange_rate_history =
        [\<lparr>erh_base_currency = ''USD'', erh_target_currency = ''EUR'', erh_rate = 85 / 100,
          erh_previous_rate = None, erh_change_percentage = None, erh_source = ''api'',
          erh_is_manual_override = False, erh_recorded_at = 1\<rparr>,
         \<lparr>erh_base_currency = ''USD'', erh_target_currency = ''EUR'', erh_rate = 9 / 10,
          erh_previous_rate = Some (85 / 100), erh_change_percentage = Some (58824 / 10000),
          erh_source = ''manual'', erh_is_manual_override = True, erh_recorded_at = 2\<rparr>],
      currency_config = []\<rparr>"

text \<open>
  A configured backend with three active currencies and an inactive one, and a client
  that updates the pair (USD, EUR), reads both directions and updates the pair again.
\<close>

definition ex_usd :: currency_config_row where
  "ex_usd =
     \<lparr>cc_id = ''3'', cc_code = ''USD'', cc_name = ''US Dollar'', cc_symbol = ''$'',
      cc_symbol_position = Some before, cc_decimal_places = Some 2, cc_is_active = True,
      cc_is_base_currency = True, cc_created_at = 0, cc_updated_at = 0\<rparr>"

definition ex_chf :: currency_config_row where
  "ex_chf =
     \<lparr>cc_id = ''1'', cc_code = ''CHF'', cc_name = ''Swiss Franc'', cc_symbol = ''CHF'',
      cc_symbol_position = Some after, cc_decimal_places = Some 2, cc_is_active = True,
      cc_is_base_currency = False, cc_created_at = 0, cc_updated_at = 0\<rparr>"

definition ex_gbp :: currency_config_row where
  "ex_gbp =
     \<lparr>cc_id = ''4'', cc_code = ''GBP'', cc_name = ''British Pound'', cc_symbol = ''GBP'',
      cc_symbol_position = Some before, cc_decimal_places = Some 2, cc_is_active = False,
      cc_is_base_currency = False, cc_created_at = 0, cc_updated_at = 0\<rparr>"

definition ex_lkr :: currency_config_row where
  "ex_lkr =
     \<lparr>cc_id = ''2'', cc_code = ''LKR'', cc_name = ''Sri Lankan Rupee'', cc_symbol = ''Rs'',
      cc_symbol_position = Some before, cc_decimal_places = Some 2, cc_is_active = True,
      cc_is_base_currency = False, cc_created_at = 0, cc_updated_at = 0\<rparr>"

definition ex_currencies :: "currency_config_row list" where
  "ex_currencies = [ex_usd, ex_chf, ex_gbp, ex_lkr]"

definition ex_blank :: world where
  "ex_blank = \<lparr>backend = empty_database, cachedRates = Map.empty, requests = []\<rparr>"

definition ex_w0 :: world where
  "ex_w0 =
     \<lparr>backend = empty_database\<lparr>currency_config := ex_currencies\<rparr>,
      cachedRates = Map.empty, requests = []\<rparr>"

definition ex_two_bases :: world where
  "ex_two_bases =
     \<lparr>backend =
        empty_database\<lparr>currency_config :=
          map (\<lambda>r. r\<lparr>cc_is_base_currency := True\<rparr>) ex_currencies\<rparr>,
      cachedRates = Map.empty, requests = []\<rparr>"

text \<open>
  A backend with a currency of 101 decimal places and one whose position and decimal
  places are \<^verbatim>\<open>NULL\<close>, and \<^verbatim>\<open>Number::toString\<close> at the one large amount used below.
\<close>

definition ex_xts :: currency_config_row where
  "ex_xts =
     \<lparr>cc_id = ''5'', cc_code = ''XTS'', cc_name = ''Test Currency'', cc_symbol = ''T'',
      cc_symbol_position = Some before, cc_decimal_places = Some 101, cc_is_active = True,
      cc_is_base_currency = False, cc_created_at = 0, cc_updated_at = 0\<rparr>"

definition ex_jpy :: currency_config_row where
  "ex_jpy =
     \<lparr>cc_id = ''6'', cc_code = ''JPY'', cc_name = ''Japanese Yen'', cc_symbol = ''JPY'',
      cc_symbol_position = None, cc_decimal_places = None, cc_is_active = True,
      cc_is_base_currency = False, cc_created_at = 0, cc_updated_at = 0\<rparr>"

definition ex_fine :: world where
  "ex_fine =
     \<lparr>backend = empty_database\<lparr>currency_config := [ex_usd, ex_xts, ex_jpy]\<rparr>,
      cachedRates = Map.empty, requests = []\<rparr>"

definition ex_toString :: "rat \<Rightarrow> string" where
  "ex_toString x = (if x = 10 ^ 21 then ''1e+21'' else [])"

text \<open>A backend whose only base currency is inactive.\<close>

definition ex_inactive_base :: world where
  "ex_inactive_base =
     \<lparr>backend =
        empty_database\<lparr>currency_config := [ex_chf, ex_gbp\<lparr>cc_is_base_currency := True\<rparr>]\<rparr>,
      cachedRates = Map.empty, requests = []\<rparr>"

definition ex_e1 :: env where
  "ex_e1 = \<lparr>date_now = 1000, db_now = 1, online = True\<rparr>"

definition ex_e2 :: env where
  "ex_e2 = \<lparr>date_now = 2000, db_now = 2, online = True\<rparr>"

definition ex_e3 :: env where
  "ex_e3 = \<lparr>date_now = 3000, db_now = 3, online = True\<rparr>"

definition ex_e4 :: env where
  "ex_e4 = \<lparr>date_now = 4000, db_now = 4, online = True\<rparr>"

definition ex_offline :: env where
  "ex_offline = \<lparr>date_now = 2000, db_now = 2, online = False\<rparr>"

definition ex_w1 :: world where
  "ex_w1 = snd (updateExchangeRate ex_e1 ''USD'' ''EUR'' rate_085 ''api'' False ex_w0)"

definition ex_w2 :: world where
  "ex_w2 = snd (getCurrentExchangeRate ex_e2 ''USD'' ''EUR'' ex_w1)"

definition ex_w3 :: world where
  "ex_w3 = snd (getCurrentExchangeRate ex_e2 ''EUR'' ''USD'' ex_w2)"

definition ex_w4 :: world where
  "ex_w4 = snd (updateExchangeRate ex_e3 ''USD'' ''EUR'' rate_05 ''manual'' True ex_w3)"

text \<open>The same client updating the pair (USD, USD) instead.\<close>

definition ex_same :: world where
  "ex_same = snd (updateExchangeRate ex_e1 ''USD'' ''USD'' rate_2 ''manual'' True ex_w0)"

text \<open>A cash sale of three units of one product, and two discounts.\<close>

definition ex_cart :: CartContext where
  "ex_cart =
     \<lparr>cx_lines = [\<lparr>cl_productRef = ''P'', cl_unitPrice = 50, cl_quantity = 3, cl_weight = None\<rparr>],
      cx_paymentMethod = Some ''cash'', cx_customerTier = None, cx_cardType = None,
      cx_bankName = None, cx_instant = 10, cx_weekday = 1, cx_taxRate = 875 / 100\<rparr>"

definition ex_min_amount :: DiscountCondition where
  "ex_min_amount =
     \<lparr>dc_type = min_amount, dc_value = Num 100, dc_operator = None, dc_minQuantity = None\<rparr>"

definition ex_visa :: DiscountCondition where
  "ex_visa =
     \<lparr>dc_type = card_type, dc_value = Str ''visa'', dc_operator = None, dc_minQuantity = None\<rparr>"

definition ex_ten_percent :: Discount where
  "ex_ten_percent =
     \<lparr>d_id = ''d1'', d_name = ''ten percent'', d_type = percentage, d_value = 10,
      d_conditions = [ex_min_amount], d_freeGiftProducts = None, d_minAmount = None,
      d_maxDiscount = None, d_validFrom = 0, d_validTo = 100, d_validDays = None,
      d_active = True\<rparr>"

definition ex_card_discount :: Discount where
  "ex_card_discount =
     \<lparr>d_id = ''d2'', d_name = ''card holders'', d_type = fixed, d_value = 500,
      d_conditions = [ex_min_amount, ex_visa], d_freeGiftProducts = None, d_minAmount = None,
      d_maxDiscount = None, d_validFrom = 0, d_validTo = 100, d_validDays = None,
      d_active = True\<rparr>"

definition ex_everything_off :: Discount where
  "ex_everything_off =
     \<lparr>d_id = ''d3'', d_name = ''everything off'', d_type = percentage, d_value = 100,
      d_conditions = [], d_freeGiftProducts = None, d_minAmount = None,
      d_maxDiscount = None, d_validFrom = 0, d_validTo = 100, d_validDays = None,
      d_active = True\<rparr>"

section \<open>Properties of the fixed-point coercions\<close>

lemma floor_rat_numeral_div:
  "\<lfloor>(numeral a / numeral b :: rat)\<rfloor> = numeral a div numeral b"
  using floor_divide_of_int_eq [of "numeral a" "numeral b", where ?'a = rat] by simp

lemma to_decimal_Inr: "to_decimal p s x = Inr y \<Longrightarrow> y = round_half_away s x"
  by (auto simp: to_decimal_def Let_def split: if_splits)

lemma round_half_away_nonneg_error:
  fixes x :: rat
  assumes "0 \<le> x"
  shows "\<bar>of_int \<lfloor>x * 10 ^ s + 1 / 2\<rfloor> / 10 ^ s - x\<bar> \<le> 1 / (2 * 10 ^ s)"
proof -
  define p :: rat where "p = 10 ^ s"
  define y :: rat where "y = of_int \<lfloor>x * p + 1 / 2\<rfloor>"
  have p: "0 < p" by (simp add: p_def)
  have lo: "y \<le> x * p + 1 / 2" unfolding y_def by (rule of_int_floor_le)
  have hi: "x * p + 1 / 2 < y + 1" unfolding y_def using floor_correct [of "x * p + 1 / 2"] by simp
  have half: "\<bar>y - x * p\<bar> \<le> 1 / 2" using lo hi by linarith
  have "\<bar>y - x * p\<bar> / p \<le> (1 / 2) / p"
    by (rule divide_right_mono [OF half]) (use p in simp)
  moreover have "\<bar>y / p - x\<bar> = \<bar>y - x * p\<bar> / p"
  proof -
    have "y / p - x = (y - x * p) / p" using p by (simp add: field_simps)
    then show ?thesis using p by (simp add: abs_divide)
  qed
  moreover have "(1 / 2) / p = 1 / (2 * p)" by simp
  ultimately have "\<bar>y / p - x\<bar> \<le> 1 / (2 * p)" by (simp only:)
  then show ?thesis by (simp add: y_def p_def)
qed

text \<open>The coercion moves a value by at most half a unit of the last place.\<close>

lemma round_half_away_error: "\<bar>round_half_away s x - x\<bar> \<le> 1 / (2 * 10 ^ s)"
proof (cases "x < 0")
  case True
  then have "0 \<le> - x" by simp
  from round_half_away_nonneg_error [OF this, of s]
  have "\<bar>of_int \<lfloor>(- x) * 10 ^ s + 1 / 2\<rfloor> / 10 ^ s + x\<bar> \<le> 1 / (2 * 10 ^ s)" by simp
  moreover have "\<bar>round_half_away s x - x\<bar> = \<bar>of_int \<lfloor>(- x) * 10 ^ s + 1 / 2\<rfloor> / 10 ^ s + x\<bar>"
  proof -
    have "round_half_away s x - x = - (of_int \<lfloor>(- x) * 10 ^ s + 1 / 2\<rfloor> / 10 ^ s + x)"
      using True by (simp add: round_half_away_def)
    then show ?thesis by (simp only: abs_minus_cancel)
  qed
  ultimately show ?thesis by simp
next
  case False
  then show ?thesis
    using round_half_away_nonneg_error [of x s] by (simp add: round_half_away_def)
qed

text \<open>A value with at most \<open>s\<close> decimal places is stored as it is.\<close>

lemma round_half_away_exact: "round_half_away s (of_int k / 10 ^ s) = of_int k / 10 ^ s"
proof (cases "k < 0")
  case True
  have "\<lfloor>of_int (- k) + (1 / 2 :: rat)\<rfloor> = - k"
    by (simp add: floor_unique del: of_int_minus)
  then have "\<lfloor>- (of_int k :: rat) + 1 / 2\<rfloor> = - k" by simp
  moreover have "(of_int k :: rat) / 10 ^ s < 0"
    using True by (simp add: divide_neg_pos)
  ultimately show ?thesis
    by (simp add: round_half_away_def)
next
  case False
  have "\<lfloor>of_int k + (1 / 2 :: rat)\<rfloor> = k"
    by (simp add: floor_unique)
  moreover have "\<not> (of_int k :: rat) / 10 ^ s < 0"
    using False by (simp add: divide_less_0_iff)
  ultimately show ?thesis
    by (simp add: round_half_away_def)
qed

section \<open>Supersession of exchange rates\<close>

text \<open>
  The \<^verbatim>\<open>UPDATE\<close> statement leaves no open record of its pair and does not touch the
  open records of any other pair.
\<close>

lemma open_after_end_same:
  "filter (\<lambda>r. er_base_currency r = b \<and> er_target_currency r = t \<and> er_effective_to r = None)
     (map (\<lambda>r. if rate_row_matches now b t r then r\<lparr>er_effective_to := Some now\<rparr> else r) rows) = []"
  by (induction rows) (auto simp: rate_row_matches_def split: option.splits)

lemma open_after_end_other:
  "(b', t') \<noteq> (b, t) \<Longrightarrow>
   filter (\<lambda>r. er_base_currency r = b' \<and> er_target_currency r = t' \<and> er_effective_to r = None)
     (map (\<lambda>r. if rate_row_matches now b t r then r\<lparr>er_effective_to := Some now\<rparr> else r) rows)
   = filter (\<lambda>r. er_base_currency r = b' \<and> er_target_currency r = t' \<and> er_effective_to r = None) rows"
  by (induction rows) (auto simp: rate_row_matches_def)

lemma matches_after_end:
  "now1 \<le> now2 \<Longrightarrow>
   filter (rate_row_matches now2 b t)
     (map (\<lambda>r. if rate_row_matches now1 b t r then r\<lparr>er_effective_to := Some now1\<rparr> else r) rows) = []"
  by (induction rows) (auto simp: rate_row_matches_def split: option.splits)

text \<open>What a successful update leaves in the two tables.\<close>

lemma update_exchange_rate_rates:
  assumes "update_exchange_rate now b t p_rate src ovr db = Inr db'"
  shows "\<exists>stored. to_decimal 15 8 (numeric_value p_rate) = Inr stored \<and> 0 < stored \<and>
           exchange_rates db' =
             map (\<lambda>r. if rate_row_matches now b t r then r\<lparr>er_effective_to := Some now\<rparr> else r)
               (exchange_rates db) @
             [\<lparr>er_base_currency = b, er_target_currency = t, er_rate = stored, er_source = src,
               er_is_manual_override = ovr, er_effective_from = now, er_effective_to = None\<rparr>]"
  using assms
  by (auto simp: update_exchange_rate_def Let_def end_active_rates_def insert_rate_def
        insert_history_def split: sum.splits if_splits)

lemma update_exchange_rate_history:
  assumes "update_exchange_rate now b t p_rate src ovr db = Inr db'"
  shows "\<exists>cp. change_percentage_of p_rate (map_option er_rate (select_current db now b t)) = Inr cp \<and>
           exchange_rate_history db' = exchange_rate_history db @
             [\<lparr>erh_base_currency = b, erh_target_currency = t,
               erh_rate = round_half_away 8 (numeric_value p_rate),
               erh_previous_rate = map_option er_rate (select_current db now b t),
               erh_change_percentage = cp, erh_source = src,
               erh_is_manual_override = ovr, erh_recorded_at = now\<rparr>]"
  using assms
  by (auto simp: update_exchange_rate_def Let_def insert_history_def
        split: sum.splits if_splits dest!: to_decimal_Inr)

lemma update_exchange_rate_time:
  assumes "update_exchange_rate now b t p_rate src ovr db = Inr db'"
    and "r \<in> set (exchange_rates db)" and "rate_row_matches now b t r"
  shows "er_effective_from r < now"
  using assms
  by (auto simp: update_exchange_rate_def Let_def end_active_rates_def
        split: sum.splits if_splits)

lemma update_exchange_rate_open_same:
  assumes "update_exchange_rate now b t p_rate src ovr db = Inr db'"
  shows "length (open_rates db' b t) = 1"
proof -
  from update_exchange_rate_rates [OF assms] obtain stored where
    "exchange_rates db' =
       map (\<lambda>r. if rate_row_matches now b t r then r\<lparr>er_effective_to := Some now\<rparr> else r)
         (exchange_rates db) @
       [\<lparr>er_base_currency = b, er_target_currency = t, er_rate = stored, er_source = src,
         er_is_manual_override = ovr, er_effective_from = now, er_effective_to = None\<rparr>]"
    by blast
  then show ?thesis
    by (simp add: open_rates_def open_after_end_same)
qed

lemma update_exchange_rate_open_other:
  assumes "update_exchange_rate now b t p_rate src ovr db = Inr db'" and "(b', t') \<noteq> (b, t)"
  shows "open_rates db' b' t' = open_rates db b' t'"
proof -
  from update_exchange_rate_rates [OF assms(1)] obtain stored where
    "exchange_rates db' =
       map (\<lambda>r. if rate_row_matches now b t r then r\<lparr>er_effective_to := Some now\<rparr> else r)
         (exchange_rates db) @
       [\<lparr>er_base_currency = b, er_target_currency = t, er_rate = stored, er_source = src,
         er_is_manual_override = ovr, er_effective_from = now, er_effective_to = None\<rparr>]"
    by blast
  then show ?thesis
    using assms(2) by (auto simp add: open_rates_def open_after_end_other)
qed

lemma run_update_invariant:
  assumes "supersession_invariant db" and "run_update c db = Inr db'"
  shows "supersession_invariant db'"
  unfolding supersession_invariant_def
proof (intro allI)
  fix b t
  show "length (open_rates db' b t) \<le> 1"
  proof (cases "(b, t) = (uc_base_currency c, uc_target_currency c)")
    case True
    then show ?thesis
      using update_exchange_rate_open_same assms(2) unfolding run_update_def by fastforce
  next
    case False
    then have "open_rates db' b t = open_rates db b t"
      using update_exchange_rate_open_other assms(2) unfolding run_update_def by blast
    then show ?thesis
      using assms(1) by (simp add: supersession_invariant_def)
  qed
qed

lemma run_updates_invariant:
  "supersession_invariant db \<Longrightarrow> supersession_invariant (run_updates cs db)"
proof (induction cs arbitrary: db)
  case Nil
  then show ?case by simp
next
  case (Cons c cs)
  then show ?case
    by (auto split: sum.splits intro: run_update_invariant)
qed

text \<open>
  After a successful update the new record is the only one of its pair that a later
  statement selects, and a second update can only succeed at a later instant.
\<close>

lemma select_current_after_update:
  assumes "update_exchange_rate now1 b t r1 s1 o1 db0 = Inr db1" and "now1 \<le> now2"
  shows "map_option er_rate (select_current db1 now2 b t)
           = Some (round_half_away 8 (numeric_value r1))"
proof -
  from update_exchange_rate_rates [OF assms(1)] obtain stored where
    st: "to_decimal 15 8 (numeric_value r1) = Inr stored" and
    rows: "exchange_rates db1 =
             map (\<lambda>r. if rate_row_matches now1 b t r then r\<lparr>er_effective_to := Some now1\<rparr> else r)
               (exchange_rates db0) @
             [\<lparr>er_base_currency = b, er_target_currency = t, er_rate = stored, er_source = s1,
               er_is_manual_override = o1, er_effective_from = now1, er_effective_to = None\<rparr>]"
    by blast
  have "stored = round_half_away 8 (numeric_value r1)" using st by (rule to_decimal_Inr)
  moreover have "rate_row_matches now2 b t
      \<lparr>er_base_currency = b, er_target_currency = t, er_rate = stored, er_source = s1,
       er_is_manual_override = o1, er_effective_from = now1, er_effective_to = None\<rparr>"
    by (simp add: rate_row_matches_def)
  ultimately show ?thesis
    using assms(2) by (simp add: select_current_def rows matches_after_end)
qed

lemma second_update_later:
  assumes "update_exchange_rate now1 b t r1 s1 o1 db0 = Inr db1"
    and "update_exchange_rate now2 b t r2 s2 o2 db1 = Inr db2"
  shows "now1 < now2"
proof -
  from update_exchange_rate_rates [OF assms(1)] obtain stored where
    rows: "exchange_rates db1 =
             map (\<lambda>r. if rate_row_matches now1 b t r then r\<lparr>er_effective_to := Some now1\<rparr> else r)
               (exchange_rates db0) @
             [\<lparr>er_base_currency = b, er_target_currency = t, er_rate = stored, er_source = s1,
               er_is_manual_override = o1, er_effective_from = now1, er_effective_to = None\<rparr>]"
    by blast
  let ?new = "\<lparr>er_base_currency = b, er_target_currency = t, er_rate = stored, er_source = s1,
               er_is_manual_override = o1, er_effective_from = now1, er_effective_to = None\<rparr>"
  have "?new \<in> set (exchange_rates db1)" by (simp add: rows)
  moreover have "rate_row_matches now2 b t ?new" by (simp add: rate_row_matches_def)
  ultimately have "er_effective_from ?new < now2"
    using update_exchange_rate_time [OF assms(2)] by blast
  then show ?thesis by simp
qed

text \<open>
  The percentage that is stored when a previous rate exists, and how far the two
  roundings can take it from the exact quotient.
\<close>

lemma change_percentage_of_previous:
  assumes "change_percentage_of p_rate (Some prev) = Inr cp" and "0 < prev"
  shows "cp = Some (round_half_away 4
                (round_half_away
                   (select_div_scale (numeric_value p_rate - prev) (max (dscale p_rate) 8) prev 8)
                   ((numeric_value p_rate - prev) / prev) * 100))"
  using assms
  by (auto simp: change_percentage_of_def numeric_div_def Let_def
        split: sum.splits if_splits prod.splits dest!: to_decimal_Inr)

lemma select_div_scale_ge: "min 1000 d2 \<le> select_div_scale x1 d1 x2 d2"
  by (simp add: select_div_scale_def Let_def)

lemma round_half_away_error_8:
  assumes "8 \<le> s"
  shows "\<bar>round_half_away s x - x\<bar> \<le> 1 / (2 * 10 ^ 8)"
proof -
  have "(10::rat) ^ 8 \<le> 10 ^ s"
    using assms by (intro power_increasing) simp_all
  then have "1 / (2 * 10 ^ s) \<le> 1 / (2 * (10::rat) ^ 8)"
    by (intro divide_left_mono) simp_all
  with round_half_away_error [of s x] show ?thesis by linarith
qed

lemma two_roundings:
  fixes a b x :: rat
  assumes "\<bar>a - x\<bar> \<le> 1 / (2 * 10 ^ 8)" and "\<bar>b - a * 100\<bar> \<le> 1 / (2 * 10 ^ 4)"
  shows "\<bar>b - x * 100\<bar> \<le> 101 / 2000000"
proof -
  from assms have "\<bar>a - x\<bar> \<le> 1 / 200000000" and "\<bar>b - a * 100\<bar> \<le> 1 / 20000"
    by simp_all
  then show ?thesis by linarith
qed

lemma percentage_error:
  assumes "8 \<le> s"
  shows "\<bar>round_half_away 4 (round_half_away s x * 100) - x * 100\<bar> \<le> 101 / 2000000"
proof (rule two_roundings)
  show "\<bar>round_half_away s x - x\<bar> \<le> 1 / (2 * 10 ^ 8)"
    using assms by (rule round_half_away_error_8)
  show "\<bar>round_half_away 4 (round_half_away s x * 100) - round_half_away s x * 100\<bar>
      \<le> 1 / (2 * 10 ^ 4)"
    by (rule round_half_away_error)
qed

lemma two_updates:
  assumes u1: "update_exchange_rate now1 b t r1 s1 o1 db0 = Inr db1"
    and u2: "update_exchange_rate now2 b t r2 s2 o2 db1 = Inr db2"
  defines "previous \<equiv> round_half_away 8 (numeric_value r1)"
  defines "exact \<equiv> (numeric_value r2 - previous) / previous"
  shows "length (open_rates db2 b t) = 1 \<and>
         (\<exists>h1 h2. exchange_rate_history db2 = exchange_rate_history db0 @ [h1, h2] \<and>
            erh_previous_rate h2 = Some previous \<and>
            erh_change_percentage h2 =
              Some (round_half_away 4
                     (round_half_away
                        (select_div_scale (numeric_value r2 - previous) (max (dscale r2) 8)
                           previous 8) exact * 100)) \<and>
            (\<exists>c. erh_change_percentage h2 = Some c \<and> \<bar>c - exact * 100\<bar> \<le> 101 / 2000000))"
proof -
  let ?rscale = "select_div_scale (numeric_value r2 - previous) (max (dscale r2) 8) previous 8"
  let ?stored = "round_half_away 4 (round_half_away ?rscale exact * 100)"
  have lt: "now1 < now2" using second_update_later [OF u1 u2] .
  have prev: "map_option er_rate (select_current db1 now2 b t) = Some previous"
    using select_current_after_update [OF u1] lt by (simp add: previous_def)
  from update_exchange_rate_history [OF u1] obtain cp1 where
    h1: "exchange_rate_history db1 = exchange_rate_history db0 @
             [\<lparr>erh_base_currency = b, erh_target_currency = t,
               erh_rate = round_half_away 8 (numeric_value r1),
               erh_previous_rate = map_option er_rate (select_current db0 now1 b t),
               erh_change_percentage = cp1, erh_source = s1,
               erh_is_manual_override = o1, erh_recorded_at = now1\<rparr>]"
    by blast
  from update_exchange_rate_history [OF u2] obtain cp2 where
    cp2: "change_percentage_of r2 (map_option er_rate (select_current db1 now2 b t)) = Inr cp2" and
    h2: "exchange_rate_history db2 = exchange_rate_history db1 @
             [\<lparr>erh_base_currency = b, erh_target_currency = t,
               erh_rate = round_half_away 8 (numeric_value r2),
               erh_previous_rate = map_option er_rate (select_current db1 now2 b t),
               erh_change_percentage = cp2, erh_source = s2,
               erh_is_manual_override = o2, erh_recorded_at = now2\<rparr>]"
    by blast
  from update_exchange_rate_rates [OF u1] have pos: "0 < previous"
    by (auto simp: previous_def dest: to_decimal_Inr)
  have stored: "cp2 = Some ?stored"
    using change_percentage_of_previous [OF cp2 [unfolded prev] pos] by (simp add: exact_def)
  have "8 \<le> ?rscale"
    using select_div_scale_ge [of 8 "numeric_value r2 - previous" "max (dscale r2) 8" previous]
    by simp
  then have near: "\<bar>?stored - exact * 100\<bar> \<le> 101 / 2000000"
    by (rule percentage_error)
  have hist: "exchange_rate_history db2 = exchange_rate_history db0 @
      [\<lparr>erh_base_currency = b, erh_target_currency = t,
        erh_rate = round_half_away 8 (numeric_value r1),
        erh_previous_rate = map_option er_rate (select_current db0 now1 b t),
        erh_change_percentage = cp1, erh_source = s1,
        erh_is_manual_override = o1, erh_recorded_at = now1\<rparr>,
       \<lparr>erh_base_currency = b, erh_target_currency = t,
        erh_rate = round_half_away 8 (numeric_value r2),
        erh_previous_rate = Some previous,
        erh_change_percentage = Some ?stored, erh_source = s2,
        erh_is_manual_override = o2, erh_recorded_at = now2\<rparr>]"
    using h1 h2 prev stored by simp
  show ?thesis
    using update_exchange_rate_open_same [OF u2] near by (subst hist) simp
qed

text \<open>
  C1, as amended. Any sequence of \<^verbatim>\<open>update_exchange_rate\<close> calls keeps the invariant that
  every (base, target) pair has at most one record with \<open>effective_to = NULL\<close>. After two
  successive successful updates of one pair with the rates \<open>r1\<close> and \<open>r2\<close>, exactly one
  record of the pair is open and exactly two history rows have been appended; the second
  carries as previous rate \<open>r1\<close> as stored, that is rounded to eight decimal places (\<open>r1\<close>
  itself when it has no more), and as change percentage the quotient
  \<open>(r2 - previous) / previous\<close> rounded to the result scale of the division, times 100,
  rounded to four decimal places, the precision of the \<^verbatim>\<open>DECIMAL(8,4)\<close> variable and
  column. That value lies within 0.0000505 of \<open>(r2 - previous) / previous * 100\<close>.
\<close>

theorem update_supersession:
  "(supersession_invariant db \<longrightarrow> supersession_invariant (run_updates cs db)) \<and>
   (update_exchange_rate now1 b t r1 s1 o1 db0 = Inr db1 \<and>
    update_exchange_rate now2 b t r2 s2 o2 db1 = Inr db2 \<longrightarrow>
      length (open_rates db2 b t) = 1 \<and>
      (\<exists>h1 h2. exchange_rate_history db2 = exchange_rate_history db0 @ [h1, h2] \<and>
         erh_previous_rate h2 = Some (round_half_away 8 (numeric_value r1)) \<and>
         erh_change_percentage h2 =
           Some (round_half_away 4
                  (round_half_away
                     (select_div_scale
                        (numeric_value r2 - round_half_away 8 (numeric_value r1))
                        (max (dscale r2) 8) (round_half_away 8 (numeric_value r1)) 8)
                     ((numeric_value r2 - round_half_away 8 (numeric_value r1))
                        / round_half_away 8 (numeric_value r1)) * 100)) \<and>
         (\<exists>c. erh_change_percentage h2 = Some c \<and>
            \<bar>c - (numeric_value r2 - round_half_away 8 (numeric_value r1))
                   / round_half_away 8 (numeric_value r1) * 100\<bar> \<le> 101 / 2000000))) \<and>
   round_half_away 8 (of_int k / 10 ^ 8) = of_int k / 10 ^ 8"
proof (intro conjI impI)
  assume "supersession_invariant db"
  then show "supersession_invariant (run_updates cs db)"
    by (rule run_updates_invariant)
next
  assume both: "update_exchange_rate now1 b t r1 s1 o1 db0 = Inr db1 \<and>
    update_exchange_rate now2 b t r2 s2 o2 db1 = Inr db2"
  then have u1: "update_exchange_rate now1 b t r1 s1 o1 db0 = Inr db1"
    and u2: "update_exchange_rate now2 b t r2 s2 o2 db1 = Inr db2"
    by simp_all
  from two_updates [OF u1 u2]
  show "length (open_rates db2 b t) = 1"
    and "\<exists>h1 h2. exchange_rate_history db2 = exchange_rate_history db0 @ [h1, h2] \<and>
         erh_previous_rate h2 = Some (round_half_away 8 (numeric_value r1)) \<and>
         erh_change_percentage h2 =
           Some (round_half_away 4
                  (round_half_away
                     (select_div_scale
                        (numeric_value r2 - round_half_away 8 (numeric_value r1))
                        (max (dscale r2) 8) (round_half_away 8 (numeric_value r1)) 8)
                     ((numeric_value r2 - round_half_away 8 (numeric_value r1))
                        / round_half_away 8 (numeric_value r1)) * 100)) \<and>
         (\<exists>c. erh_change_percentage h2 = Some c \<and>
            \<bar>c - (numeric_value r2 - round_half_away 8 (numeric_value r1))
                   / round_half_away 8 (numeric_value r1) * 100\<bar> \<le> 101 / 2000000)"
    by blast+
next
  show "round_half_away 8 (of_int k / 10 ^ 8) = of_int k / 10 ^ 8"
    by (rule round_half_away_exact)
qed

theorem update_supersession_witness:
  "supersession_invariant empty_database \<and>
   supersession_invariant (run_updates [ex_call1, ex_call2] empty_database) \<and>
   update_exchange_rate 1 ''USD'' ''EUR'' rate_085 ''api'' False empty_database = Inr ex_db1 \<and>
   update_exchange_rate 2 ''USD'' ''EUR'' rate_09 ''manual'' True ex_db1 = Inr ex_db2 \<and>
   length (open_rates ex_db2 ''USD'' ''EUR'') = 1 \<and>
   (\<exists>h1 h2. exchange_rate_history ex_db2 = exchange_rate_history empty_database @ [h1, h2] \<and>
      erh_previous_rate h2 = Some (round_half_away 8 (numeric_value rate_085)) \<and>
      (\<exists>c. erh_change_percentage h2 = Some c \<and>
         \<bar>c - (numeric_value rate_09 - round_half_away 8 (numeric_value rate_085))
                / round_half_away 8 (numeric_value rate_085) * 100\<bar> \<le> 101 / 2000000)) \<and>
   map erh_previous_rate (exchange_rate_history ex_db2) = [None, Some (85 / 100)] \<and>
   map erh_change_percentage (exchange_rate_history ex_db2) = [None, Some (58824 / 10000)] \<and>
   map erh_change_percentage (exchange_rate_history (run_updates [ex_call3, ex_call4] empty_database))
     = [None, Some (1500001 / 10000)]"
proof -
  have rows: "map erh_previous_rate (exchange_rate_history ex_db2) = [None, Some (85 / 100)] \<and>
      map erh_change_percentage (exchange_rate_history ex_db2) = [None, Some (58824 / 10000)]"
    by (simp add: ex_db2_def)
  have tie: "map erh_change_percentage
      (exchange_rate_history (run_updates [ex_call3, ex_call4] empty_database))
      = [None, Some (1500001 / 10000)]"
    by code_simp
  have inv: "supersession_invariant empty_database"
    by (simp add: supersession_invariant_def open_rates_def empty_database_def)
  have u1: "update_exchange_rate 1 ''USD'' ''EUR'' rate_085 ''api'' False empty_database = Inr ex_db1"
    by code_simp
  have u2: "update_exchange_rate 2 ''USD'' ''EUR'' rate_09 ''manual'' True ex_db1 = Inr ex_db2"
    by code_simp
  from update_supersession [of empty_database "[ex_call1, ex_call2]" 1 "''USD''" "''EUR''"
      rate_085 "''api''" False empty_database ex_db1 2 rate_09 "''manual''" True ex_db2]
    inv u1 u2 rows tie
  show ?thesis by blast
qed

text \<open>
  The claim as written fails on the change percentage: from 0.85 to 0.9 the quotient
  \<open>(r2 - r1) / r1 * 100\<close> is \<open>100 / 17\<close>, and the history row holds 5.8824.
\<close>

theorem update_change_percentage_counterexample:
  "update_exchange_rate 1 ''USD'' ''EUR'' rate_085 ''api'' False empty_database = Inr ex_db1 \<and>
   update_exchange_rate 2 ''USD'' ''EUR'' rate_09 ''manual'' True ex_db1 = Inr ex_db2 \<and>
   numeric_value rate_085 = 85 / 100 \<and> numeric_value rate_09 = 9 / 10 \<and>
   erh_change_percentage (last (exchange_rate_history ex_db2)) = Some (58824 / 10000) \<and>
   erh_change_percentage (last (exchange_rate_history ex_db2))
     \<noteq> Some ((9 / 10 - 85 / 100) / (85 / 100) * 100)"
  by code_simp

section \<open>The rate cache\<close>

lemma updateExchangeRate_success:
  assumes "updateExchangeRate e b t r src ovr w = (Inr (), w')"
  shows "online e \<and>
         (\<exists>db'. update_exchange_rate (db_now e) b t r src ovr (backend w) = Inr db' \<and>
            w' = w\<lparr>backend := db',
                    cachedRates := (cachedRates w)(cacheKey b t := None),
                    requests := requests w @ [rpc ''update_exchange_rate'']\<rparr>)"
  using assms
  by (auto simp: updateExchangeRate_def send_def Let_def split: if_splits sum.splits)

lemma updateExchangeRate_collapse:
  "fst (updateExchangeRate e b t r src ovr w) = Inr () \<Longrightarrow>
   updateExchangeRate e b t r src ovr w = (Inr (), snd (updateExchangeRate e b t r src ovr w))"
  by (metis prod.collapse)

lemma cache_hit_fresh:
  "cachedRates w k = Some c \<Longrightarrow> now - ce_timestamp c < CACHE_DURATION \<Longrightarrow>
   cache_hit w now k = Some (ce_rate c)"
  by (simp add: cache_hit_def)

lemma cache_hit_absent: "cachedRates w k = None \<Longrightarrow> cache_hit w now k = None"
  by (simp add: cache_hit_def)

lemma getCurrentExchangeRate_hit:
  "b \<noteq> t \<Longrightarrow> cache_hit w (date_now e) (cacheKey b t) = Some r \<Longrightarrow>
   getCurrentExchangeRate e b t w = (r, w)"
  by (simp add: getCurrentExchangeRate_def Let_def)

lemma getCurrentExchangeRate_miss:
  assumes "b \<noteq> t" and "cache_hit w (date_now e) (cacheKey b t) = None" and "online e"
  shows "fst (getCurrentExchangeRate e b t w) =
           (case get_current_exchange_rate (backend w) (db_now e) b t of
              Inl err \<Rightarrow> 1
            | Inr data \<Rightarrow> if data = 0 then 1 else data)"
  using assms
  by (simp add: getCurrentExchangeRate_def rpc_get_current_exchange_rate_def send_def Let_def
        split: sum.splits)

lemma getCurrentExchangeRate_offline:
  assumes "b \<noteq> t" and "cache_hit w (date_now e) (cacheKey b t) = None" and "\<not> online e"
  shows "fst (getCurrentExchangeRate e b t w) = 1"
  using assms
  by (simp add: getCurrentExchangeRate_def rpc_get_current_exchange_rate_def send_def Let_def)

lemma get_current_exchange_rate_after_update:
  assumes "update_exchange_rate now1 b t r src ovr db = Inr db'" and "now1 \<le> now2" and "b \<noteq> t"
  shows "get_current_exchange_rate db' now2 b t = Inr (round_half_away 8 (numeric_value r))"
proof -
  from select_current_after_update [OF assms(1,2)]
  obtain row where "select_current db' now2 b t = Some row"
    and "er_rate row = round_half_away 8 (numeric_value r)"
    by auto
  then show ?thesis
    using assms(3) by (simp add: get_current_exchange_rate_def)
qed

lemma stored_rate_positive:
  assumes "update_exchange_rate now b t r src ovr db = Inr db'"
  shows "0 < round_half_away 8 (numeric_value r)"
  using update_exchange_rate_rates [OF assms] by (auto dest: to_decimal_Inr)


text \<open>
  Codes without an underscore, as the three-letter codes of the schema are, give the two
  directions of a pair different cache keys.
\<close>

lemma cacheKey_reverse:
  assumes "b \<noteq> t" and "CHR ''_'' \<notin> set b" and "CHR ''_'' \<notin> set t"
  shows "cacheKey t b \<noteq> cacheKey b t"
proof
  assume "cacheKey t b = cacheKey b t"
  then have eq: "t @ CHR ''_'' # b = b @ CHR ''_'' # t"
    by (simp add: cacheKey_def)
  then show False
    using assms by (auto simp: append_eq_append_conv2 append_eq_Cons_conv Cons_eq_append_conv)
qed




text \<open>
  C3. \<^verbatim>\<open>getCurrentExchangeRate(X, X)\<close> is 1.0 for every code and leaves the world as it
  was: the cache is neither read nor written and no request is sent. Consequently
  \<^verbatim>\<open>convertCurrency(a, X, X)\<close> has the converted amount \<open>a\<close>.
\<close>

theorem same_currency_identity:
  "getCurrentExchangeRate e X X w = (1, w) \<and>
   requests (snd (getCurrentExchangeRate e X X w)) = requests w \<and>
   convertedAmount (fst (convertCurrency e a X X w)) = a \<and>
   exchangeRate (fst (convertCurrency e a X X w)) = 1 \<and>
   snd (convertCurrency e a X X w) = w"
proof -
  have rate: "getCurrentExchangeRate e X X w = (1, w)"
    by (simp add: getCurrentExchangeRate_def)
  then show ?thesis
    by (simp add: convertCurrency_def)
qed

theorem same_currency_identity_witness:
  "getCurrentExchangeRate ex_offline ''USD'' ''USD'' ex_w4 = (1, ex_w4) \<and>
   convertedAmount (fst (convertCurrency ex_offline (1999 / 100) ''USD'' ''USD'' ex_w4)) = 1999 / 100"
  using same_currency_identity [of ex_offline "''USD''" ex_w4 "1999 / 100"] by simp

text \<open>
  C5, as amended. When \<^verbatim>\<open>updateExchangeRate(base, target, rate)\<close> has returned
  successfully, the cache holds no entry for the key of (base, target), so a read of that
  key misses the cache at every later time, however young the entry was. The next
  \<^verbatim>\<open>getCurrentExchangeRate(base, target)\<close> returns the rate the update stored (the rate at
  the eight decimal places of the column), whatever the cache held before, when the two
  codes are distinct and the backend is reachable; it returns 1.0 when the two codes are
  the same and when the backend is not reachable.
\<close>

theorem update_invalidates_cache:
  assumes upd: "updateExchangeRate e1 b t r src ovr w = (Inr (), w1)"
  shows "cachedRates w1 (cacheKey b t) = None \<and>
         cache_hit w1 (date_now e2) (cacheKey b t) = None \<and>
         (b \<noteq> t \<and> online e2 \<and> db_now e1 \<le> db_now e2 \<longrightarrow>
            get_current_exchange_rate (backend w1) (db_now e2) b t
              = Inr (round_half_away 8 (numeric_value r)) \<and>
            fst (getCurrentExchangeRate e2 b t w1) = round_half_away 8 (numeric_value r)) \<and>
         (b = t \<or> \<not> online e2 \<longrightarrow> fst (getCurrentExchangeRate e2 b t w1) = 1)"
proof -
  from updateExchangeRate_success [OF upd] obtain db' where
    db': "update_exchange_rate (db_now e1) b t r src ovr (backend w) = Inr db'" and
    w1: "w1 = w\<lparr>backend := db',
                 cachedRates := (cachedRates w)(cacheKey b t := None),
                 requests := requests w @ [rpc ''update_exchange_rate'']\<rparr>"
    by blast
  have gone: "cachedRates w1 (cacheKey b t) = None"
    by (simp add: w1)
  then have miss: "cache_hit w1 (date_now e2) (cacheKey b t) = None"
    by (rule cache_hit_absent)
  have fresh: "get_current_exchange_rate (backend w1) (db_now e2) b t
        = Inr (round_half_away 8 (numeric_value r)) \<and>
      fst (getCurrentExchangeRate e2 b t w1) = round_half_away 8 (numeric_value r)"
    if distinct: "b \<noteq> t" and reachable: "online e2" and later: "db_now e1 \<le> db_now e2"
  proof -
    have stored: "get_current_exchange_rate (backend w1) (db_now e2) b t
        = Inr (round_half_away 8 (numeric_value r))"
      using get_current_exchange_rate_after_update [OF db' later distinct] by (simp add: w1)
    have "fst (getCurrentExchangeRate e2 b t w1) =
            (case get_current_exchange_rate (backend w1) (db_now e2) b t of
               Inl err \<Rightarrow> 1
             | Inr data \<Rightarrow> if data = 0 then 1 else data)"
      using distinct miss reachable by (rule getCurrentExchangeRate_miss)
    also have "\<dots> = round_half_away 8 (numeric_value r)"
      using stored stored_rate_positive [OF db'] by simp
    finally show ?thesis
      using stored by simp
  qed
  have same: "fst (getCurrentExchangeRate e2 b t w1) = 1" if "b = t"
    using that by (simp add: getCurrentExchangeRate_def)
  have unreachable: "fst (getCurrentExchangeRate e2 b t w1) = 1" if "b \<noteq> t" and "\<not> online e2"
    using that(1) miss that(2) by (rule getCurrentExchangeRate_offline)
  show ?thesis
    using gone miss fresh same unreachable by blast
qed

theorem update_invalidates_cache_witness:
  "updateExchangeRate ex_e3 ''USD'' ''EUR'' rate_05 ''manual'' True ex_w3 = (Inr (), ex_w4) \<and>
   ''USD'' \<noteq> ''EUR'' \<and> online ex_e4 \<and> db_now ex_e3 \<le> db_now ex_e4 \<and>
   cache_hit ex_w3 (date_now ex_e4) (cacheKey ''USD'' ''EUR'') = Some (85 / 100) \<and>
   cachedRates ex_w4 (cacheKey ''USD'' ''EUR'') = None \<and>
   fst (getCurrentExchangeRate ex_e4 ''USD'' ''EUR'' ex_w4) = 1 / 2 \<and>
   \<not> online ex_offline \<and>
   fst (getCurrentExchangeRate ex_offline ''USD'' ''EUR'' ex_w4) = 1"
proof -
  have "fst (updateExchangeRate ex_e3 ''USD'' ''EUR'' rate_05 ''manual'' True ex_w3) = Inr ()"
    by code_simp
  then have upd: "updateExchangeRate ex_e3 ''USD'' ''EUR'' rate_05 ''manual'' True ex_w3 = (Inr (), ex_w4)"
    unfolding ex_w4_def by (rule updateExchangeRate_collapse)
  have d: "''USD'' \<noteq> ''EUR''" by simp
  have on: "online ex_e4" by (simp add: ex_e4_def)
  have off: "\<not> online ex_offline" by (simp add: ex_offline_def)
  have later: "db_now ex_e3 \<le> db_now ex_e4" by (simp add: ex_e3_def ex_e4_def)
  have old: "cache_hit ex_w3 (date_now ex_e4) (cacheKey ''USD'' ''EUR'') = Some (85 / 100)"
    by code_simp
  have rounded: "round_half_away 8 (numeric_value rate_05) = 1 / 2"
    by code_simp
  from update_invalidates_cache [OF upd, of ex_e4] update_invalidates_cache [OF upd, of ex_offline]
    upd d on off later old
  show ?thesis by (simp add: rounded)
qed

text \<open>
  The claim as written fails for a pair of equal codes: the update of (USD, USD) to the
  rate 2 succeeds and stores 2, and the read that follows returns 1.
\<close>

theorem update_same_currency_counterexample:
  "updateExchangeRate ex_e1 ''USD'' ''USD'' rate_2 ''manual'' True ex_w0 = (Inr (), ex_same) \<and>
   map er_rate (exchange_rates (backend ex_same)) = [2] \<and>
   map er_effective_to (exchange_rates (backend ex_same)) = [None] \<and>
   fst (getCurrentExchangeRate ex_e2 ''USD'' ''USD'' ex_same) = 1 \<and>
   fst (getCurrentExchangeRate ex_e2 ''USD'' ''USD'' ex_same) \<noteq> 2"
proof -
  have "fst (updateExchangeRate ex_e1 ''USD'' ''USD'' rate_2 ''manual'' True ex_w0) = Inr ()"
    by code_simp
  then have "updateExchangeRate ex_e1 ''USD'' ''USD'' rate_2 ''manual'' True ex_w0 = (Inr (), ex_same)"
    unfolding ex_same_def by (rule updateExchangeRate_collapse)
  moreover have "map er_rate (exchange_rates (backend ex_same)) = [2] \<and>
      map er_effective_to (exchange_rates (backend ex_same)) = [None] \<and>
      fst (getCurrentExchangeRate ex_e2 ''USD'' ''USD'' ex_same) = 1 \<and>
      fst (getCurrentExchangeRate ex_e2 ''USD'' ''USD'' ex_same) \<noteq> 2"
    by code_simp
  ultimately show ?thesis by simp
qed

text \<open>
  C10. A successful \<^verbatim>\<open>updateExchangeRate(base, target, rate)\<close> deletes the cache entry of
  the key of (base, target) and nothing else: every other key keeps its entry, among them
  the key of the reverse direction (target, base) whenever that is a different key, as it
  is for distinct codes without an underscore. A later
  \<^verbatim>\<open>getCurrentExchangeRate(target, base)\<close> within five minutes of that entry returns the
  rate cached before the update and sends no request.
\<close>

theorem update_cache_frame:
  assumes upd: "updateExchangeRate e b t r src ovr w = (Inr (), w')"
  shows "cachedRates w' = (cachedRates w)(cacheKey b t := None) \<and>
         (\<forall>k. k \<noteq> cacheKey b t \<longrightarrow> cachedRates w' k = cachedRates w k) \<and>
         (cacheKey t b \<noteq> cacheKey b t \<and> cachedRates w (cacheKey t b) = Some c \<and>
          date_now e2 - ce_timestamp c < CACHE_DURATION \<longrightarrow>
            cachedRates w' (cacheKey t b) = Some c \<and>
            getCurrentExchangeRate e2 t b w' = (ce_rate c, w')) \<and>
         (b \<noteq> t \<and> CHR ''_'' \<notin> set b \<and> CHR ''_'' \<notin> set t \<longrightarrow>
            cacheKey t b \<noteq> cacheKey b t)"
proof -
  from updateExchangeRate_success [OF upd] obtain db' where
    w': "w' = w\<lparr>backend := db',
                 cachedRates := (cachedRates w)(cacheKey b t := None),
                 requests := requests w @ [rpc ''update_exchange_rate'']\<rparr>"
    by blast
  have del: "cachedRates w' = (cachedRates w)(cacheKey b t := None)"
    by (simp add: w')
  have frame: "\<forall>k. k \<noteq> cacheKey b t \<longrightarrow> cachedRates w' k = cachedRates w k"
    by (simp add: del)
  have stale: "getCurrentExchangeRate e2 t b w' = (ce_rate c, w')"
    if keys: "cacheKey t b \<noteq> cacheKey b t" and entry: "cachedRates w (cacheKey t b) = Some c"
      and fresh: "date_now e2 - ce_timestamp c < CACHE_DURATION"
  proof -
    have "t \<noteq> b" using keys by auto
    moreover have "cachedRates w' (cacheKey t b) = Some c"
      using frame keys entry by simp
    then have "cache_hit w' (date_now e2) (cacheKey t b) = Some (ce_rate c)"
      using fresh by (rule cache_hit_fresh)
    ultimately show ?thesis by (rule getCurrentExchangeRate_hit)
  qed
  show ?thesis
    using del frame stale cacheKey_reverse by simp
qed

theorem update_cache_frame_witness:
  "updateExchangeRate ex_e3 ''USD'' ''EUR'' rate_05 ''manual'' True ex_w3 = (Inr (), ex_w4) \<and>
   cacheKey ''EUR'' ''USD'' \<noteq> cacheKey ''USD'' ''EUR'' \<and>
   cachedRates ex_w3 (cacheKey ''EUR'' ''USD'')
     = Some \<lparr>ce_rate = 117647059 / 100000000, ce_timestamp = 2000\<rparr> \<and>
   date_now ex_e4 - 2000 < CACHE_DURATION \<and>
   cachedRates ex_w4 (cacheKey ''EUR'' ''USD'')
     = Some \<lparr>ce_rate = 117647059 / 100000000, ce_timestamp = 2000\<rparr> \<and>
   getCurrentExchangeRate ex_e4 ''EUR'' ''USD'' ex_w4 = (117647059 / 100000000, ex_w4) \<and>
   get_current_exchange_rate (backend ex_w4) (db_now ex_e4) ''EUR'' ''USD'' = Inr 2"
proof -
  have "fst (updateExchangeRate ex_e3 ''USD'' ''EUR'' rate_05 ''manual'' True ex_w3) = Inr ()"
    by code_simp
  then have upd: "updateExchangeRate ex_e3 ''USD'' ''EUR'' rate_05 ''manual'' True ex_w3 = (Inr (), ex_w4)"
    unfolding ex_w4_def by (rule updateExchangeRate_collapse)
  have "''USD'' \<noteq> ''EUR'' \<and> CHR ''_'' \<notin> set ''USD'' \<and> CHR ''_'' \<notin> set ''EUR''"
    by simp
  with update_cache_frame [OF upd] have keys: "cacheKey ''EUR'' ''USD'' \<noteq> cacheKey ''USD'' ''EUR''"
    by blast
  have entry: "cachedRates ex_w3 (cacheKey ''EUR'' ''USD'')
      = Some \<lparr>ce_rate = 117647059 / 100000000, ce_timestamp = 2000\<rparr>"
    by code_simp
  have fresh: "date_now ex_e4 - 2000 < CACHE_DURATION"
    by (simp add: ex_e4_def CACHE_DURATION_def)
  have backend: "get_current_exchange_rate (backend ex_w4) (db_now ex_e4) ''EUR'' ''USD'' = Inr 2"
    by code_simp
  from update_cache_frame [OF upd,
      of "\<lparr>ce_rate = 117647059 / 100000000, ce_timestamp = 2000\<rparr>" ex_e4]
    upd keys entry fresh backend
  show ?thesis by simp
qed


section \<open>The currency registry\<close>

lemma sorted_codes: "sorted (map code (map to_config (sort_key cc_code rows)))"
proof -
  have "code \<circ> to_config = cc_code"
    by (rule ext) (simp add: to_config_def)
  then have "map code (map to_config (sort_key cc_code rows)) = map cc_code (sort_key cc_code rows)"
    by simp
  then show ?thesis by (simp only: sorted_sort_key)
qed

lemma getSupportedCurrencies_online:
  "online e \<Longrightarrow>
   fst (getSupportedCurrencies e w) = Inr (map to_config (select_active_currencies (backend w)))"
  by (simp add: getSupportedCurrencies_def send_def Let_def)

text \<open>
  C6, as amended. With the backend reachable \<^verbatim>\<open>getSupportedCurrencies\<close> returns the active
  currency records, each once, ordered by code; when no currency is active it returns the
  empty sequence, successfully. Its only failure is the failure of the backend query.
\<close>

theorem supported_currencies:
  "(online e \<longrightarrow>
      (\<exists>cs. fst (getSupportedCurrencies e w) = Inr cs \<and>
         sorted (map code cs) \<and>
         mset cs = mset (map to_config (filter cc_is_active (currency_config (backend w)))) \<and>
         (filter cc_is_active (currency_config (backend w)) = [] \<longrightarrow> cs = []))) \<and>
   (\<not> online e \<longrightarrow> fst (getSupportedCurrencies e w) = Inl FetchError)"
proof (intro conjI impI)
  assume reachable: "online e"
  let ?cs = "map to_config (select_active_currencies (backend w))"
  have "fst (getSupportedCurrencies e w) = Inr ?cs"
    using reachable by (rule getSupportedCurrencies_online)
  moreover have "sorted (map code ?cs)"
    unfolding select_active_currencies_def by (rule sorted_codes)
  moreover have "mset ?cs = mset (map to_config (filter cc_is_active (currency_config (backend w))))"
    by (simp add: select_active_currencies_def)
  moreover have "filter cc_is_active (currency_config (backend w)) = [] \<longrightarrow> ?cs = []"
    by (simp add: select_active_currencies_def)
  ultimately show "\<exists>cs. fst (getSupportedCurrencies e w) = Inr cs \<and>
         sorted (map code cs) \<and>
         mset cs = mset (map to_config (filter cc_is_active (currency_config (backend w)))) \<and>
         (filter cc_is_active (currency_config (backend w)) = [] \<longrightarrow> cs = [])"
    by blast
next
  assume "\<not> online e"
  then show "fst (getSupportedCurrencies e w) = Inl FetchError"
    by (simp add: getSupportedCurrencies_def send_def Let_def)
qed

theorem supported_currencies_witness:
  "online ex_e1 \<and> \<not> online ex_offline \<and>
   map code (projr (fst (getSupportedCurrencies ex_e1 ex_w0))) = [''CHF'', ''LKR'', ''USD''] \<and>
   (\<exists>cs. fst (getSupportedCurrencies ex_e1 ex_w0) = Inr cs \<and> sorted (map code cs) \<and>
      mset cs = mset (map to_config (filter cc_is_active (currency_config (backend ex_w0))))) \<and>
   fst (getSupportedCurrencies ex_offline ex_w0) = Inl FetchError"
proof -
  have on: "online ex_e1" by (simp add: ex_e1_def)
  have off: "\<not> online ex_offline" by (simp add: ex_offline_def)
  have codes: "map code (projr (fst (getSupportedCurrencies ex_e1 ex_w0))) = [''CHF'', ''LKR'', ''USD'']"
    by code_simp
  from supported_currencies [of ex_e1 ex_w0] supported_currencies [of ex_offline ex_w0] on off codes
  show ?thesis by blast
qed

text \<open>
  The claim as written fails on empty configuration: with no currency at all the call
  succeeds with the empty sequence.
\<close>

theorem supported_currencies_empty_counterexample:
  "filter cc_is_active (currency_config (backend ex_blank)) = [] \<and>
   fst (getSupportedCurrencies ex_e1 ex_blank) = Inr []"
  by code_simp

lemma single_Inr: "single rows = Inr r \<longleftrightarrow> rows = [r]"
  by (auto simp: single_def split: list.splits)

lemma filter_single:
  assumes "filter P xs = [r]"
  shows "r \<in> set xs \<and> P r \<and> (\<forall>r' \<in> set xs. P r' \<longrightarrow> r' = r)"
proof -
  have "set (filter P xs) = {r}" using assms by simp
  then show ?thesis by auto
qed

lemma getBaseCurrency_result:
  "fst (getBaseCurrency e w) =
     (if \<not> online e then Inl FetchError
      else case filter (\<lambda>r. cc_is_base_currency r \<and> cc_is_active r) (currency_config (backend w)) of
             [r] \<Rightarrow> Inr \<lparr>id' = cc_id r, code = cc_code r, name = cc_name r, symbol = cc_symbol r,
                          symbolPosition = cc_symbol_position r,
                          decimalPlaces = cc_decimal_places r, isActive = cc_is_active r,
                          isBaseCurrency = cc_is_base_currency r,
                          createdAt = cc_created_at r, updatedAt = cc_updated_at r\<rparr>
           | _ \<Rightarrow> Inl PGRST116)"
  by (simp add: getBaseCurrency_def send_def Let_def single_def select_base_currencies_def
        to_config_def split: sum.splits list.splits)

text \<open>
  C7. \<^verbatim>\<open>getBaseCurrency\<close> returns a currency exactly when the backend is reachable and
  exactly one row of \<^verbatim>\<open>currency_config\<close> has both \<open>is_base_currency\<close> and \<open>is_active\<close>
  set, and then it returns the fields of that row: the result is active, is a base
  currency, and is the only such row of the table. When no row has both flags set (for
  instance when the only base currency is inactive) and when more than one has, it fails,
  with the client's error for a result that is not a single row whenever the backend is
  reachable: it never picks one of several.
\<close>

theorem base_currency_unique:
  "(fst (getBaseCurrency e w) = Inr c \<longleftrightarrow>
      online e \<and>
      (\<exists>r. filter (\<lambda>r. cc_is_base_currency r \<and> cc_is_active r) (currency_config (backend w)) = [r] \<and>
           c = \<lparr>id' = cc_id r, code = cc_code r, name = cc_name r, symbol = cc_symbol r,
                symbolPosition = cc_symbol_position r, decimalPlaces = cc_decimal_places r,
                isActive = cc_is_active r, isBaseCurrency = cc_is_base_currency r,
                createdAt = cc_created_at r, updatedAt = cc_updated_at r\<rparr>)) \<and>
   (fst (getBaseCurrency e w) = Inr c \<longrightarrow>
      isActive c \<and> isBaseCurrency c \<and>
      (\<exists>r \<in> set (currency_config (backend w)).
          cc_is_active r \<and> cc_is_base_currency r \<and> cc_id r = id' c \<and> cc_code r = code c \<and>
          (\<forall>r' \<in> set (currency_config (backend w)).
              cc_is_active r' \<and> cc_is_base_currency r' \<longrightarrow> r' = r))) \<and>
   ((\<forall>r \<in> set (currency_config (backend w)). \<not> (cc_is_active r \<and> cc_is_base_currency r)) \<longrightarrow>
      (\<exists>err. fst (getBaseCurrency e w) = Inl err) \<and>
      (online e \<longrightarrow> fst (getBaseCurrency e w) = Inl PGRST116)) \<and>
   (1 < length (filter (\<lambda>r. cc_is_active r \<and> cc_is_base_currency r) (currency_config (backend w))) \<longrightarrow>
      (\<exists>err. fst (getBaseCurrency e w) = Inl err) \<and>
      (online e \<longrightarrow> fst (getBaseCurrency e w) = Inl PGRST116))"
proof -
  let ?rows = "currency_config (backend w)"
  let ?bases = "filter (\<lambda>r. cc_is_base_currency r \<and> cc_is_active r) ?rows"
  let ?fields = "\<lambda>r. \<lparr>id' = cc_id r, code = cc_code r, name = cc_name r, symbol = cc_symbol r,
                symbolPosition = cc_symbol_position r, decimalPlaces = cc_decimal_places r,
                isActive = cc_is_active r, isBaseCurrency = cc_is_base_currency r,
                createdAt = cc_created_at r, updatedAt = cc_updated_at r\<rparr>"
  note eq = getBaseCurrency_result [of e w]
  have one: "fst (getBaseCurrency e w) = Inr c \<longleftrightarrow> online e \<and> (\<exists>r. ?bases = [r] \<and> c = ?fields r)"
    unfolding eq by (auto split: list.splits)
  have props: "isActive c \<and> isBaseCurrency c \<and>
      (\<exists>r \<in> set ?rows.
          cc_is_active r \<and> cc_is_base_currency r \<and> cc_id r = id' c \<and> cc_code r = code c \<and>
          (\<forall>r' \<in> set ?rows. cc_is_active r' \<and> cc_is_base_currency r' \<longrightarrow> r' = r))"
    if "fst (getBaseCurrency e w) = Inr c"
  proof -
    from that one obtain r where r: "?bases = [r]" and c: "c = ?fields r" by blast
    from filter_single [OF r]
    have row: "r \<in> set ?rows" and base: "cc_is_base_currency r" and active: "cc_is_active r"
      and only: "\<forall>r' \<in> set ?rows. cc_is_active r' \<and> cc_is_base_currency r' \<longrightarrow> r' = r"
      by auto
    show ?thesis
    proof (intro conjI bexI [of _ r])
      show "isActive c" and "isBaseCurrency c" and "cc_is_active r" and "cc_is_base_currency r"
        using base active by (simp_all add: c)
      show "cc_id r = id' c" and "cc_code r = code c"
        by (simp_all add: c)
      show "\<forall>r' \<in> set ?rows. cc_is_active r' \<and> cc_is_base_currency r' \<longrightarrow> r' = r"
        by (rule only)
      show "r \<in> set ?rows" by (rule row)
    qed
  qed
  have swap: "filter (\<lambda>r. cc_is_active r \<and> cc_is_base_currency r) ?rows = ?bases"
    by (rule filter_cong) auto
  have none: "(\<exists>err. fst (getBaseCurrency e w) = Inl err) \<and>
      (online e \<longrightarrow> fst (getBaseCurrency e w) = Inl PGRST116)"
    if "\<forall>r \<in> set ?rows. \<not> (cc_is_active r \<and> cc_is_base_currency r)"
  proof -
    from that have "?bases = []" by (auto simp: filter_empty_conv)
    then show ?thesis unfolding eq by simp
  qed
  have many: "(\<exists>err. fst (getBaseCurrency e w) = Inl err) \<and>
      (online e \<longrightarrow> fst (getBaseCurrency e w) = Inl PGRST116)"
    if "1 < length (filter (\<lambda>r. cc_is_active r \<and> cc_is_base_currency r) ?rows)"
  proof -
    from that have "1 < length ?bases" by (simp only: swap)
    then show ?thesis unfolding eq by (auto split: list.splits)
  qed
  show ?thesis using one props none many by blast
qed

theorem base_currency_unique_witness:
  "online ex_e1 \<and>
   filter (\<lambda>r. cc_is_base_currency r \<and> cc_is_active r) (currency_config (backend ex_w0)) = [ex_usd] \<and>
   fst (getBaseCurrency ex_e1 ex_w0) =
     Inr \<lparr>id' = ''3'', code = ''USD'', name = ''US Dollar'', symbol = ''$'',
          symbolPosition = Some before, decimalPlaces = Some 2, isActive = True,
          isBaseCurrency = True, createdAt = 0, updatedAt = 0\<rparr> \<and>
   currency_config (backend ex_blank) = [] \<and>
   fst (getBaseCurrency ex_e1 ex_blank) = Inl PGRST116 \<and>
   map cc_is_base_currency (currency_config (backend ex_inactive_base)) = [False, True] \<and>
   map cc_is_active (currency_config (backend ex_inactive_base)) = [True, False] \<and>
   fst (getBaseCurrency ex_e1 ex_inactive_base) = Inl PGRST116 \<and>
   length (filter (\<lambda>r. cc_is_active r \<and> cc_is_base_currency r)
     (currency_config (backend ex_two_bases))) = 3 \<and>
   fst (getBaseCurrency ex_e1 ex_two_bases) = Inl PGRST116"
proof -
  have on: "online ex_e1" by (simp add: ex_e1_def)
  have one: "filter (\<lambda>r. cc_is_base_currency r \<and> cc_is_active r) (currency_config (backend ex_w0))
      = [ex_usd]"
    by code_simp
  have fields: "\<lparr>id' = cc_id ex_usd, code = cc_code ex_usd, name = cc_name ex_usd,
       symbol = cc_symbol ex_usd, symbolPosition = cc_symbol_position ex_usd,
       decimalPlaces = cc_decimal_places ex_usd, isActive = cc_is_active ex_usd,
       isBaseCurrency = cc_is_base_currency ex_usd,
       createdAt = cc_created_at ex_usd, updatedAt = cc_updated_at ex_usd\<rparr> =
     \<lparr>id' = ''3'', code = ''USD'', name = ''US Dollar'', symbol = ''$'',
      symbolPosition = Some before, decimalPlaces = Some 2, isActive = True,
      isBaseCurrency = True, createdAt = 0, updatedAt = 0\<rparr>"
    by (simp add: ex_usd_def)
  have empty: "currency_config (backend ex_blank) = []"
    by (simp add: ex_blank_def empty_database_def)
  have flags: "map cc_is_base_currency (currency_config (backend ex_inactive_base)) = [False, True] \<and>
      map cc_is_active (currency_config (backend ex_inactive_base)) = [True, False]"
    by code_simp
  have inactive: "\<forall>r \<in> set (currency_config (backend ex_inactive_base)).
      \<not> (cc_is_active r \<and> cc_is_base_currency r)"
    by code_simp
  have many: "length (filter (\<lambda>r. cc_is_active r \<and> cc_is_base_currency r)
      (currency_config (backend ex_two_bases))) = 3"
    by code_simp
  have "online ex_e1 \<and>
      (\<exists>r. filter (\<lambda>r. cc_is_base_currency r \<and> cc_is_active r) (currency_config (backend ex_w0)) = [r] \<and>
         \<lparr>id' = ''3'', code = ''USD'', name = ''US Dollar'', symbol = ''$'',
          symbolPosition = Some before, decimalPlaces = Some 2, isActive = True,
          isBaseCurrency = True, createdAt = 0, updatedAt = 0\<rparr> =
         \<lparr>id' = cc_id r, code = cc_code r, name = cc_name r, symbol = cc_symbol r,
          symbolPosition = cc_symbol_position r, decimalPlaces = cc_decimal_places r,
          isActive = cc_is_active r, isBaseCurrency = cc_is_base_currency r,
          createdAt = cc_created_at r, updatedAt = cc_updated_at r\<rparr>)"
    using on one fields [symmetric] by (intro conjI exI [of _ ex_usd])
  then have "fst (getBaseCurrency ex_e1 ex_w0) =
     Inr \<lparr>id' = ''3'', code = ''USD'', name = ''US Dollar'', symbol = ''$'',
          symbolPosition = Some before, decimalPlaces = Some 2, isActive = True,
          isBaseCurrency = True, createdAt = 0, updatedAt = 0\<rparr>"
    by (rule base_currency_unique [where e = ex_e1 and w = ex_w0, THEN conjunct1, THEN iffD2])
  moreover have "fst (getBaseCurrency ex_e1 ex_blank) = Inl PGRST116"
    using base_currency_unique [where e = ex_e1 and w = ex_blank,
        THEN conjunct2, THEN conjunct2, THEN conjunct1]
      on empty by simp
  moreover have "fst (getBaseCurrency ex_e1 ex_inactive_base) = Inl PGRST116"
    using base_currency_unique [where e = ex_e1 and w = ex_inactive_base,
        THEN conjunct2, THEN conjunct2, THEN conjunct1, THEN mp, OF inactive] on by blast
  moreover have "fst (getBaseCurrency ex_e1 ex_two_bases) = Inl PGRST116"
    using base_currency_unique [where e = ex_e1 and w = ex_two_bases,
        THEN conjunct2, THEN conjunct2, THEN conjunct2] on many by simp
  ultimately show ?thesis using on one empty flags many by simp
qed

section \<open>Formatting\<close>

declare digits.simps [simp del]

declare low_digits.simps [simp del]

lemma low_digits_0 [simp]: "low_digits 0 n = []"
  by (subst low_digits.simps) simp

lemma low_digits_Suc [simp]: "low_digits (Suc f) n = low_digits f (n div 10) @ [digit_char n]"
  by (subst low_digits.simps) simp

lemma length_low_digits [simp]: "length (low_digits f n) = f"
  by (induction f arbitrary: n) auto

lemma low_digits_zero: "low_digits f 0 = replicate f CHR ''0''"
  by (induction f) (auto simp: digit_char_def replicate_append_same)

lemma length_digits_pos: "0 < length (digits n)"
  by (subst digits.simps) simp

lemma ten_le_power: "(10::nat) \<le> 10 ^ Suc f"
proof -
  have "(1::nat) \<le> 10 ^ f" by simp
  then have "(10::nat) * 1 \<le> 10 * 10 ^ f" by (rule mult_le_mono2)
  then show ?thesis by simp
qed

text \<open>A number has at most \<open>f + 1\<close> digits exactly when it is below \<open>10\<^sup>f\<^sup>+\<^sup>1\<close>.\<close>

lemma length_digits_le: "length (digits n) \<le> Suc f \<longleftrightarrow> n < 10 ^ Suc f"
proof (induction f arbitrary: n)
  case 0
  show ?case
    using length_digits_pos [of "n div 10"] by (subst digits.simps) auto
next
  case (Suc f)
  show ?case
  proof (cases "n < 10")
    case True
    moreover have "(10::nat) \<le> 10 ^ Suc (Suc f)" by (rule ten_le_power)
    ultimately have "n < 10 ^ Suc (Suc f)" by (rule less_le_trans)
    with True show ?thesis by (subst digits.simps) simp
  next
    case False
    then have "length (digits n) = Suc (length (digits (n div 10)))"
      by (subst digits.simps) simp
    moreover have "n div 10 < 10 ^ Suc f \<longleftrightarrow> n < 10 ^ Suc (Suc f)"
      by (simp add: div_less_iff_less_mult mult.commute)
    ultimately show ?thesis using Suc.IH [of "n div 10"] by simp
  qed
qed

text \<open>Padding a short number with zeros gives its \<open>f + 1\<close> low digits.\<close>

lemma digits_pad:
  "n < 10 ^ Suc f \<Longrightarrow>
   replicate (Suc f - length (digits n)) CHR ''0'' @ digits n = low_digits (Suc f) n"
proof (induction f arbitrary: n)
  case 0
  then show ?case by (subst (1 2) digits.simps) simp
next
  case (Suc f)
  show ?case
  proof (cases "n < 10")
    case True
    then have "digits n = [digit_char n]" by (subst digits.simps) simp
    moreover have "n div 10 = 0" using True by simp
    ultimately show ?thesis
      by (simp add: low_digits_zero replicate_append_same)
  next
    case False
    then have d: "digits n = digits (n div 10) @ [digit_char n]"
      by (subst digits.simps) simp
    have "n div 10 < 10 ^ Suc f"
      using Suc.prems by (simp add: div_less_iff_less_mult mult.commute)
    from Suc.IH [OF this] show ?thesis
      by (simp add: d)
  qed
qed

text \<open>The digits of a long number are those of its quotient followed by its low digits.\<close>

lemma digits_split:
  "10 ^ f \<le> n \<Longrightarrow> digits n = digits (n div 10 ^ f) @ low_digits f n"
proof (induction f arbitrary: n)
  case 0
  then show ?case by simp
next
  case (Suc f)
  moreover have "(10::nat) \<le> 10 ^ Suc f" by (rule ten_le_power)
  ultimately have "\<not> n < 10" by linarith
  then have d: "digits n = digits (n div 10) @ [digit_char n]"
    by (subst digits.simps) simp
  have "10 ^ f \<le> n div 10"
    using Suc.prems by (simp add: less_eq_div_iff_mult_less_eq mult.commute)
  from Suc.IH [OF this] show ?case
    by (simp add: d div_mult2_eq)
qed

lemma toFixed_body:
  assumes "f \<noteq> 0"
  shows "(let m = digits n; k = length m;
              m = (if k \<le> f then replicate (f + 1 - k) CHR ''0'' @ m else m);
              k = (if k \<le> f then f + 1 else k)
          in take (k - f) m @ ''.'' @ drop (k - f) m)
         = digits (n div 10 ^ f) @ ''.'' @ low_digits f n"
proof -
  from assms obtain g where f: "f = Suc g" by (cases f) auto
  show ?thesis
  proof (cases "length (digits n) \<le> f")
    case True
    then have small: "n < 10 ^ Suc g" using length_digits_le [of n g] by (simp add: f)
    then have "n div 10 ^ f = 0" by (simp add: f)
    then have zero: "digits (n div 10 ^ f) = ''0''"
      by (simp add: digits.simps [of 0] digit_char_def)
    have "replicate (f + 1 - length (digits n)) CHR ''0'' @ digits n
            = CHR ''0'' # (replicate (Suc g - length (digits n)) CHR ''0'' @ digits n)"
      using True by (simp add: f Suc_diff_le)
    also have "\<dots> = CHR ''0'' # low_digits f n"
      using digits_pad [OF small] by (simp add: f)
    finally show ?thesis
      using True by (simp add: Let_def zero)
  next
    case False
    then have "\<not> n < 10 ^ Suc g" using length_digits_le [of n g] by (simp add: f)
    then have "10 ^ f \<le> n" by (simp add: f)
    then have split: "digits n = digits (n div 10 ^ f) @ low_digits f n"
      by (rule digits_split)
    have "length (digits n) - f = length (digits (n div 10 ^ f))"
      by (subst split) simp
    then show ?thesis
      using False by (simp add: Let_def) (simp add: split)
  qed
qed

text \<open>
  Within its range \<^verbatim>\<open>toFixed\<close> produces the fixed notation, which has exactly \<open>f\<close> digits
  after the point; outside it, it throws or falls back on \<^verbatim>\<open>Number::toString\<close>.
\<close>

lemma toFixed_fixed_notation:
  assumes "d = Some f \<or> d = None \<and> f = 0" and "f \<le> 100" and "\<bar>x\<bar> < 10 ^ 21"
  shows "toFixed toString (Finite x) d = Inr (fixed_notation x f)"
proof -
  have abs: "(if x < 0 then - x else x) = \<bar>x\<bar>" by simp
  have f: "ToIntegerOrInfinity d = f"
    using assms(1) by (auto simp: ToIntegerOrInfinity_def)
  show ?thesis
  proof (cases "f = 0")
    case True
    with assms(2,3) show ?thesis
      by (simp add: toFixed_def f fixed_notation_def Let_def abs del: abs_if)
  next
    case False
    from toFixed_body [OF False, of "nat \<lfloor>\<bar>x\<bar> * 10 ^ f + 1 / 2\<rfloor>"]
    show ?thesis
      using assms(2,3) False
      by (simp add: toFixed_def f fixed_notation_def Let_def abs)
  qed
qed

lemma toFixed_RangeError: "100 < f \<Longrightarrow> toFixed toString x (Some f) = Inl RangeError"
  by (simp add: toFixed_def ToIntegerOrInfinity_def)

lemma toFixed_large:
  assumes "d = Some f \<or> d = None \<and> f = 0" and "f \<le> 100" and "10 ^ 21 \<le> \<bar>x\<bar>"
  shows "toFixed toString (Finite x) d = Inr ((if x < 0 then ''-'' else []) @ toString \<bar>x\<bar>)"
proof -
  have abs: "(if x < 0 then - x else x) = \<bar>x\<bar>" by simp
  have f: "ToIntegerOrInfinity d = f"
    using assms(1) by (auto simp: ToIntegerOrInfinity_def)
  show ?thesis
    using assms(2,3) by (simp add: toFixed_def f Let_def abs del: abs_if)
qed

lemma digit_char_digit: "digit_char n \<in> set ''0123456789''"
  unfolding digit_char_def by (rule nth_mem) simp

lemma digits_chars: "set (digits n) \<subseteq> set ''0123456789''"
proof (induction n rule: digits.induct)
  case (1 n)
  then show ?case
    using digit_char_digit [of n] by (subst digits.simps) auto
qed

lemma low_digits_chars: "set (low_digits f n) \<subseteq> set ''0123456789''"
proof (induction f arbitrary: n)
  case 0
  show ?case by simp
next
  case (Suc f)
  from Suc [of "n div 10"] digit_char_digit [of n] show ?case by auto
qed

lemma digits_no_point: "CHR ''.'' \<notin> set (digits n)"
  using digits_chars [of n] by auto

lemma digits_no_minus: "CHR ''-'' \<notin> set (digits n)"
  using digits_chars [of n] by auto

lemma dropWhile_to_point:
  assumes "CHR ''.'' \<notin> set s"
  shows "dropWhile (\<lambda>c. c \<noteq> CHR ''.'') (s @ CHR ''.'' # r) = CHR ''.'' # r"
    and "dropWhile (\<lambda>c. c \<noteq> CHR ''.'') s = []"
proof -
  have all: "\<And>c. c \<in> set s \<Longrightarrow> c \<noteq> CHR ''.''" using assms by auto
  show "dropWhile (\<lambda>c. c \<noteq> CHR ''.'') (s @ CHR ''.'' # r) = CHR ''.'' # r"
    using all by (simp add: dropWhile_append2)
  show "dropWhile (\<lambda>c. c \<noteq> CHR ''.'') s = []"
    using all by simp
qed

lemma takeWhile_to_point:
  assumes "CHR ''.'' \<notin> set s"
  shows "takeWhile (\<lambda>c. c \<noteq> CHR ''.'') (s @ CHR ''.'' # r) = s"
    and "takeWhile (\<lambda>c. c \<noteq> CHR ''.'') s = s"
proof -
  have all: "\<And>c. c \<in> set s \<Longrightarrow> c \<noteq> CHR ''.''" using assms by auto
  show "takeWhile (\<lambda>c. c \<noteq> CHR ''.'') (s @ CHR ''.'' # r) = s"
    using all by (simp add: takeWhile_append2)
  show "takeWhile (\<lambda>c. c \<noteq> CHR ''.'') s = s"
    using all by (simp add: takeWhile_eq_all_conv)
qed

lemma decimals_of_fixed_notation: "decimals_of (fixed_notation x f) = f"
proof -
  define n where "n = nat \<lfloor>\<bar>x\<bar> * 10 ^ f + 1 / 2\<rfloor>"
  define s where "s = (if x < 0 then ''-'' else []) @ digits (n div 10 ^ f)"
  have s: "CHR ''.'' \<notin> set s"
    using digits_no_point [of "n div 10 ^ f"] by (simp add: s_def)
  have "fixed_notation x f = (if f = 0 then s else s @ CHR ''.'' # low_digits f n)"
    by (simp add: fixed_notation_def Let_def s_def n_def)
  moreover have "decimals_of s = 0"
    unfolding decimals_of_def by (subst dropWhile_to_point(2) [OF s]) simp
  moreover have "decimals_of (s @ CHR ''.'' # low_digits f n) = f"
    unfolding decimals_of_def by (subst dropWhile_to_point(1) [OF s]) simp
  ultimately show ?thesis by simp
qed

lemma fixed_notation_chars: "list_all is_decimal_char (fixed_notation x f)"
proof -
  have "set ''0123456789'' \<subseteq> Collect is_decimal_char"
    by (auto simp: is_decimal_char_def)
  then have "set (digits n) \<subseteq> Collect is_decimal_char"
    and "set (low_digits f n) \<subseteq> Collect is_decimal_char" for n
    using digits_chars [of n] low_digits_chars [of f n] by blast+
  moreover have "is_decimal_char CHR ''-''" and "is_decimal_char CHR ''.''"
    by (simp_all add: is_decimal_char_def)
  ultimately show ?thesis
    by (auto simp: fixed_notation_def Let_def list_all_iff)
qed

text \<open>
  Reading the fixed notation back gives the amount rounded to \<open>f\<close> decimal places, half
  away from zero: the digits written are those of the rounded amount.
\<close>

lemma digit_value_nth:
  assumes "k < 10"
  shows "digit_value (''0123456789'' ! k) = k"
proof -
  from assms have "k = 0 \<or> k = 1 \<or> k = 2 \<or> k = 3 \<or> k = 4 \<or> k = 5 \<or> k = 6 \<or> k = 7 \<or> k = 8 \<or> k = 9"
    by arith
  then show ?thesis
    by (elim disjE) (simp_all add: digit_value_def)
qed

lemma digit_value_digit_char: "digit_value (digit_char n) = n mod 10"
  unfolding digit_char_def by (rule digit_value_nth) simp

lemma read_digits_Nil: "read_digits [] = 0"
  by (simp add: read_digits_def)

lemma read_digits_snoc: "read_digits (s @ [c]) = 10 * read_digits s + digit_value c"
  by (simp add: read_digits_def)

lemma read_digits_digits: "read_digits (digits n) = n"
proof (induction n rule: digits.induct)
  case (1 n)
  show ?case
  proof (cases "n < 10")
    case True
    then have "digits n = [digit_char n]" by (subst digits.simps) simp
    then have "read_digits (digits n) = n mod 10"
      by (simp add: read_digits_def digit_value_digit_char)
    with True show ?thesis by simp
  next
    case False
    then have "digits n = digits (n div 10) @ [digit_char n]" by (subst digits.simps) simp
    then have "read_digits (digits n) = 10 * read_digits (digits (n div 10)) + n mod 10"
      by (simp only: read_digits_snoc digit_value_digit_char)
    with 1 [OF False] show ?thesis by simp
  qed
qed

lemma read_digits_low_digits: "read_digits (low_digits f n) = n mod 10 ^ f"
proof (induction f arbitrary: n)
  case 0
  show ?case by (simp add: read_digits_Nil)
next
  case (Suc f)
  have "read_digits (low_digits (Suc f) n) = 10 * (n div 10 mod 10 ^ f) + n mod 10"
    by (simp add: read_digits_snoc digit_value_digit_char Suc)
  also have "\<dots> = n mod 10 ^ Suc f"
    by (simp add: mod_mult2_eq)
  finally show ?case .
qed

lemma split_div_mod:
  fixes n d :: nat
  assumes "0 < d"
  shows "(of_nat (n div d) :: rat) + of_nat (n mod d) / of_nat d = of_nat n / of_nat d"
proof -
  have "(of_nat n :: rat) = of_nat (n div d * d + n mod d)" by simp
  also have "\<dots> = of_nat (n div d) * of_nat d + of_nat (n mod d)"
    by (simp only: of_nat_add of_nat_mult)
  finally show ?thesis using assms by (simp add: field_simps)
qed

lemma read_fixed_unsigned:
  assumes "s = digits m @ (if f = 0 then [] else ''.'' @ low_digits f k)"
  shows "s \<noteq> [] \<and> hd s \<noteq> CHR ''-'' \<and>
         takeWhile (\<lambda>c. c \<noteq> CHR ''.'') s = digits m \<and>
         tl (dropWhile (\<lambda>c. c \<noteq> CHR ''.'') s) = low_digits f k"
proof -
  have nonempty: "digits m \<noteq> []"
    using length_digits_pos [of m] by auto
  then have "hd (digits m) \<in> set (digits m)" by simp
  then have first: "hd (digits m) \<noteq> CHR ''-''"
    using digits_no_minus [of m] by auto
  have point: "CHR ''.'' \<notin> set (digits m)" by (rule digits_no_point)
  show ?thesis
  proof (cases "f = 0")
    case True
    then have s: "s = digits m" using assms by simp
    have "takeWhile (\<lambda>c. c \<noteq> CHR ''.'') (digits m) = digits m"
      using point by (rule takeWhile_to_point(2))
    moreover have "tl (dropWhile (\<lambda>c. c \<noteq> CHR ''.'') (digits m)) = low_digits f k"
      by (simp only: dropWhile_to_point(2) [OF point] True low_digits_0 list.sel)
    ultimately show ?thesis
      unfolding s using nonempty first by blast
  next
    case False
    then have s: "s = digits m @ CHR ''.'' # low_digits f k" using assms by simp
    have "takeWhile (\<lambda>c. c \<noteq> CHR ''.'') (digits m @ CHR ''.'' # low_digits f k) = digits m"
      using point by (rule takeWhile_to_point(1))
    moreover have "tl (dropWhile (\<lambda>c. c \<noteq> CHR ''.'') (digits m @ CHR ''.'' # low_digits f k))
        = low_digits f k"
      by (simp only: dropWhile_to_point(1) [OF point] list.sel)
    moreover have "digits m @ CHR ''.'' # low_digits f k \<noteq> []"
      using nonempty by simp
    moreover have "hd (digits m @ CHR ''.'' # low_digits f k) \<noteq> CHR ''-''"
      using nonempty first by simp
    ultimately show ?thesis
      unfolding s by blast
  qed
qed

lemma read_fixed_fixed_notation: "read_fixed (fixed_notation x f) = round_half_away f x"
proof -
  define n where "n = nat \<lfloor>\<bar>x\<bar> * 10 ^ f + 1 / 2\<rfloor>"
  define body where "body = digits (n div 10 ^ f) @ (if f = 0 then [] else ''.'' @ low_digits f n)"
  have parts: "body \<noteq> [] \<and> hd body \<noteq> CHR ''-'' \<and>
      takeWhile (\<lambda>c. c \<noteq> CHR ''.'') body = digits (n div 10 ^ f) \<and>
      tl (dropWhile (\<lambda>c. c \<noteq> CHR ''.'') body) = low_digits f n"
    using body_def by (rule read_fixed_unsigned)
  have "(of_nat (n div 10 ^ f) :: rat) + of_nat (n mod 10 ^ f) / of_nat (10 ^ f)
      = of_nat n / of_nat (10 ^ f)"
    by (rule split_div_mod) simp
  then have magnitude: "(of_nat (n div 10 ^ f) :: rat) + of_nat (n mod 10 ^ f) / 10 ^ f
      = of_nat n / 10 ^ f"
    by simp
  have "0 \<le> \<bar>x\<bar> * 10 ^ f + 1 / 2" by simp
  then have "0 \<le> \<lfloor>\<bar>x\<bar> * 10 ^ f + 1 / 2\<rfloor>" by (simp only: zero_le_floor)
  then have n: "(of_nat n :: rat) = of_int \<lfloor>\<bar>x\<bar> * 10 ^ f + 1 / 2\<rfloor>"
    by (simp add: n_def)
  have unsigned: "read_fixed body = of_nat n / 10 ^ f"
    using parts magnitude
    by (simp add: read_fixed_def Let_def read_digits_digits read_digits_low_digits)
  have signed: "read_fixed (''-'' @ body) = - (of_nat n / 10 ^ f)"
    using parts magnitude
    by (simp add: read_fixed_def Let_def read_digits_digits read_digits_low_digits)
  have text_of: "fixed_notation x f = (if x < 0 then ''-'' @ body else body)"
    by (simp add: fixed_notation_def Let_def body_def n_def)
  show ?thesis
  proof (cases "x < 0")
    case True
    then have "\<bar>x\<bar> = - x" by simp
    with True show ?thesis
      by (simp only: text_of signed n round_half_away_def if_True)
  next
    case False
    then have "\<bar>x\<bar> = x" by simp
    with False show ?thesis
      by (simp only: text_of unsigned n round_half_away_def if_False)
  qed
qed

text \<open>The look-up \<^verbatim>\<open>currencies.find(c => c.code === currencyCode)\<close> on the active rows.\<close>

lemma find_Some_member: "find P xs = Some x \<Longrightarrow> P x \<and> x \<in> set xs"
  by (induction xs) (auto split: if_splits)

lemma find_known_code:
  assumes row: "r \<in> set (currency_config db)" and active: "cc_is_active r"
    and unique: "\<forall>r' \<in> set (currency_config db). cc_code r' = cc_code r \<longrightarrow> r' = r"
  shows "find (\<lambda>c. code c = cc_code r) (map to_config (select_active_currencies db))
           = Some (to_config r)"
proof (cases "find (\<lambda>c. code c = cc_code r) (map to_config (select_active_currencies db))")
  case None
  moreover have "to_config r \<in> set (map to_config (select_active_currencies db))"
    using row active by (simp add: select_active_currencies_def)
  moreover have "code (to_config r) = cc_code r" by (simp add: to_config_def)
  ultimately show ?thesis by (auto simp: find_None_iff)
next
  case (Some c)
  then have "code c = cc_code r" and "c \<in> set (map to_config (select_active_currencies db))"
    by (auto dest: find_Some_member)
  then obtain r' where "r' \<in> set (currency_config db)" and "c = to_config r'"
    and "cc_code r' = cc_code r"
    by (auto simp: select_active_currencies_def to_config_def)
  with unique have "c = to_config r" by auto
  with Some show ?thesis by simp
qed

lemma find_unknown_code:
  assumes "\<forall>r \<in> set (currency_config db). cc_is_active r \<longrightarrow> cc_code r \<noteq> c"
  shows "find (\<lambda>x. code x = c) (map to_config (select_active_currencies db)) = None"
  using assms by (auto simp: find_None_iff select_active_currencies_def to_config_def)

lemma formatCurrency_offline:
  "\<not> online e \<Longrightarrow> fst (formatCurrency toString e amount c w) = Inl FetchError"
  by (simp add: formatCurrency_def getSupportedCurrencies_def send_def Let_def)

lemma formatCurrency_known:
  assumes "online e" and "r \<in> set (currency_config (backend w))" and "cc_is_active r"
    and "\<forall>r' \<in> set (currency_config (backend w)). cc_code r' = cc_code r \<longrightarrow> r' = r"
  shows "fst (formatCurrency toString e amount (cc_code r) w) =
           (case toFixed toString amount (cc_decimal_places r) of
              Inl err \<Rightarrow> Inl err
            | Inr a \<Rightarrow> Inr (if cc_symbol_position r = Some before then cc_symbol r @ a
                            else a @ '' '' @ cc_symbol r))"
proof -
  have list: "getSupportedCurrencies e w =
      (Inr (map to_config (select_active_currencies (backend w))),
       send (select_from ''currency_config'') w)"
    using assms(1) by (simp add: getSupportedCurrencies_def send_def Let_def)
  have found: "find (\<lambda>c. code c = cc_code r)
      (map to_config (select_active_currencies (backend w))) = Some (to_config r)"
    using assms(2,3,4) by (rule find_known_code)
  have fields: "decimalPlaces (to_config r) = cc_decimal_places r \<and>
      symbolPosition (to_config r) = cc_symbol_position r \<and> symbol (to_config r) = cc_symbol r"
    by (simp add: to_config_def)
  show ?thesis
    by (simp add: formatCurrency_def list found fields split: sum.splits)
qed

lemma formatCurrency_unknown:
  assumes "online e"
    and "\<forall>r \<in> set (currency_config (backend w)). cc_is_active r \<longrightarrow> cc_code r \<noteq> c"
  shows "fst (formatCurrency toString e amount c w) =
           (case toFixed toString amount (Some 2) of
              Inl err \<Rightarrow> Inl err
            | Inr a \<Rightarrow> Inr (c @ '' '' @ a))"
proof -
  have list: "getSupportedCurrencies e w =
      (Inr (map to_config (select_active_currencies (backend w))),
       send (select_from ''currency_config'') w)"
    using assms(1) by (simp add: getSupportedCurrencies_def send_def Let_def)
  have missing: "find (\<lambda>x. code x = c)
      (map to_config (select_active_currencies (backend w))) = None"
    using assms(2) by (rule find_unknown_code)
  show ?thesis
    by (simp add: formatCurrency_def list missing split: sum.splits)
qed

text \<open>
  C8, as amended. \<^verbatim>\<open>formatCurrency\<close> first fetches the active currencies and fails
  when that request fails, for known and unknown codes alike. With the backend
  reachable, for the code of an active record (codes being unique) with \<open>f\<close> decimal
  places (0 when the column is \<^verbatim>\<open>NULL\<close>): if \<open>f\<close> exceeds 100 the call throws a
  \<^verbatim>\<open>RangeError\<close>; otherwise a finite amount below \<open>10\<^sup>2\<^sup>1\<close> in magnitude is rendered in
  fixed notation with exactly \<open>f\<close> digits after the point, the symbol directly in front
  of it when the position is \<open>before\<close> and behind it after one space otherwise, and an
  amount from \<open>10\<^sup>2\<^sup>1\<close> on is rendered in the notation of \<^verbatim>\<open>Number::toString\<close>. For a code
  no active record bears the result is the code, a space and the amount with two
  decimal places, again in the notation of \<^verbatim>\<open>Number::toString\<close> from \<open>10\<^sup>2\<^sup>1\<close> on, and
  \<^verbatim>\<open>NaN\<close> for an amount that is not a number. The fixed notation consists of the
  characters of a decimal numeral, has exactly the digits asked for after the point, and
  denotes the amount rounded to that many places, half away from zero.
\<close>

theorem format_currency:
  "(\<not> online e \<longrightarrow> fst (formatCurrency toString e amount c w) = Inl FetchError) \<and>
   (online e \<and> r \<in> set (currency_config (backend w)) \<and> cc_is_active r \<and>
    (\<forall>r' \<in> set (currency_config (backend w)). cc_code r' = cc_code r \<longrightarrow> r' = r) \<and>
    (cc_decimal_places r = Some f \<or> cc_decimal_places r = None \<and> f = 0) \<longrightarrow>
      (100 < f \<longrightarrow> fst (formatCurrency toString e amount (cc_code r) w) = Inl RangeError) \<and>
      (f \<le> 100 \<and> \<bar>x\<bar> < 10 ^ 21 \<longrightarrow>
         fst (formatCurrency toString e (Finite x) (cc_code r) w) =
           Inr (if cc_symbol_position r = Some before
                then cc_symbol r @ fixed_notation x f
                else fixed_notation x f @ '' '' @ cc_symbol r)) \<and>
      (f \<le> 100 \<and> 10 ^ 21 \<le> \<bar>x\<bar> \<longrightarrow>
         fst (formatCurrency toString e (Finite x) (cc_code r) w) =
           Inr (if cc_symbol_position r = Some before
                then cc_symbol r @ (if x < 0 then ''-'' else []) @ toString \<bar>x\<bar>
                else ((if x < 0 then ''-'' else []) @ toString \<bar>x\<bar>) @ '' '' @ cc_symbol r))) \<and>
   (online e \<and>
    (\<forall>r \<in> set (currency_config (backend w)). cc_is_active r \<longrightarrow> cc_code r \<noteq> c) \<longrightarrow>
      (\<bar>x\<bar> < 10 ^ 21 \<longrightarrow>
         fst (formatCurrency toString e (Finite x) c w) = Inr (c @ '' '' @ fixed_notation x 2)) \<and>
      (10 ^ 21 \<le> \<bar>x\<bar> \<longrightarrow>
         fst (formatCurrency toString e (Finite x) c w) =
           Inr (c @ '' '' @ (if x < 0 then ''-'' else []) @ toString \<bar>x\<bar>)) \<and>
      fst (formatCurrency toString e NaN c w) = Inr (c @ '' NaN'')) \<and>
   decimals_of (fixed_notation x g) = g \<and>
   read_fixed (fixed_notation x g) = round_half_away g x \<and>
   list_all is_decimal_char (fixed_notation x g)"
proof -
  have offline: "fst (formatCurrency toString e amount c w) = Inl FetchError" if "\<not> online e"
    using that by (rule formatCurrency_offline)
  have known: "(100 < f \<longrightarrow> fst (formatCurrency toString e amount (cc_code r) w) = Inl RangeError) \<and>
      (f \<le> 100 \<and> \<bar>x\<bar> < 10 ^ 21 \<longrightarrow>
         fst (formatCurrency toString e (Finite x) (cc_code r) w) =
           Inr (if cc_symbol_position r = Some before
                then cc_symbol r @ fixed_notation x f
                else fixed_notation x f @ '' '' @ cc_symbol r)) \<and>
      (f \<le> 100 \<and> 10 ^ 21 \<le> \<bar>x\<bar> \<longrightarrow>
         fst (formatCurrency toString e (Finite x) (cc_code r) w) =
           Inr (if cc_symbol_position r = Some before
                then cc_symbol r @ (if x < 0 then ''-'' else []) @ toString \<bar>x\<bar>
                else ((if x < 0 then ''-'' else []) @ toString \<bar>x\<bar>) @ '' '' @ cc_symbol r))"
    if reachable: "online e" and row: "r \<in> set (currency_config (backend w))"
      and active: "cc_is_active r"
      and unique: "\<forall>r' \<in> set (currency_config (backend w)). cc_code r' = cc_code r \<longrightarrow> r' = r"
      and places: "cc_decimal_places r = Some f \<or> cc_decimal_places r = None \<and> f = 0"
  proof (intro conjI impI)
    note result = formatCurrency_known [OF reachable row active unique, of toString]
    {
      assume "100 < f"
      with places have "cc_decimal_places r = Some f" by auto
      with \<open>100 < f\<close> show "fst (formatCurrency toString e amount (cc_code r) w) = Inl RangeError"
        by (simp add: result toFixed_RangeError)
    }
    {
      assume "f \<le> 100 \<and> \<bar>x\<bar> < 10 ^ 21"
      then have "toFixed toString (Finite x) (cc_decimal_places r) = Inr (fixed_notation x f)"
        using places by (intro toFixed_fixed_notation) auto
      then show "fst (formatCurrency toString e (Finite x) (cc_code r) w) =
           Inr (if cc_symbol_position r = Some before
                then cc_symbol r @ fixed_notation x f
                else fixed_notation x f @ '' '' @ cc_symbol r)"
        by (simp add: result)
    }
    {
      assume "f \<le> 100 \<and> 10 ^ 21 \<le> \<bar>x\<bar>"
      then have "toFixed toString (Finite x) (cc_decimal_places r)
          = Inr ((if x < 0 then ''-'' else []) @ toString \<bar>x\<bar>)"
        using places by (intro toFixed_large) auto
      then show "fst (formatCurrency toString e (Finite x) (cc_code r) w) =
           Inr (if cc_symbol_position r = Some before
                then cc_symbol r @ (if x < 0 then ''-'' else []) @ toString \<bar>x\<bar>
                else ((if x < 0 then ''-'' else []) @ toString \<bar>x\<bar>) @ '' '' @ cc_symbol r)"
        by (simp add: result)
    }
  qed
  have unknown: "(\<bar>x\<bar> < 10 ^ 21 \<longrightarrow>
         fst (formatCurrency toString e (Finite x) c w) = Inr (c @ '' '' @ fixed_notation x 2)) \<and>
      (10 ^ 21 \<le> \<bar>x\<bar> \<longrightarrow>
         fst (formatCurrency toString e (Finite x) c w) =
           Inr (c @ '' '' @ (if x < 0 then ''-'' else []) @ toString \<bar>x\<bar>)) \<and>
      fst (formatCurrency toString e NaN c w) = Inr (c @ '' NaN'')"
    if reachable: "online e"
      and missing: "\<forall>r \<in> set (currency_config (backend w)). cc_is_active r \<longrightarrow> cc_code r \<noteq> c"
  proof (intro conjI impI)
    note result = formatCurrency_unknown [OF reachable missing, of toString]
    {
      assume "\<bar>x\<bar> < 10 ^ 21"
      then have "toFixed toString (Finite x) (Some 2) = Inr (fixed_notation x 2)"
        by (intro toFixed_fixed_notation) auto
      then show "fst (formatCurrency toString e (Finite x) c w) = Inr (c @ '' '' @ fixed_notation x 2)"
        by (simp add: result)
    }
    {
      assume "10 ^ 21 \<le> \<bar>x\<bar>"
      then have "toFixed toString (Finite x) (Some 2)
          = Inr ((if x < 0 then ''-'' else []) @ toString \<bar>x\<bar>)"
        by (intro toFixed_large) auto
      then show "fst (formatCurrency toString e (Finite x) c w) =
           Inr (c @ '' '' @ (if x < 0 then ''-'' else []) @ toString \<bar>x\<bar>)"
        by (simp add: result)
    }
    show "fst (formatCurrency toString e NaN c w) = Inr (c @ '' NaN'')"
      by (simp add: result toFixed_def ToIntegerOrInfinity_def)
  qed
  show ?thesis
    using offline known unknown decimals_of_fixed_notation [of x g]
      read_fixed_fixed_notation [of x g] fixed_notation_chars [of x g]
    by blast
qed

theorem format_currency_witness:
  "\<not> online ex_offline \<and>
   fst (formatCurrency ex_toString ex_offline (Finite (632099 / 64)) ''USD'' ex_w0) = Inl FetchError \<and>
   online ex_e1 \<and>
   fst (formatCurrency ex_toString ex_e1 (Finite (632099 / 64)) ''USD'' ex_w0) = Inr ''$9876.55'' \<and>
   fst (formatCurrency ex_toString ex_e1 (Finite (632099 / 64)) ''CHF'' ex_w0) = Inr ''9876.55 CHF'' \<and>
   fst (formatCurrency ex_toString ex_e1 (Finite (632099 / 64)) ''GBP'' ex_w0) = Inr ''GBP 9876.55'' \<and>
   fst (formatCurrency ex_toString ex_e1 (Finite (- (1 / 8))) ''GBP'' ex_w0) = Inr ''GBP -0.13'' \<and>
   fst (formatCurrency ex_toString ex_e1 (Finite (10 ^ 21)) ''GBP'' ex_w0) = Inr ''GBP 1e+21'' \<and>
   fst (formatCurrency ex_toString ex_e1 NaN ''GBP'' ex_w0) = Inr ''GBP NaN'' \<and>
   cc_decimal_places ex_xts = Some 101 \<and>
   fst (formatCurrency ex_toString ex_e1 (Finite (632099 / 64)) ''XTS'' ex_fine) = Inl RangeError \<and>
   cc_decimal_places ex_jpy = None \<and> cc_symbol_position ex_jpy = None \<and>
   fst (formatCurrency ex_toString ex_e1 (Finite (632099 / 64)) ''JPY'' ex_fine) = Inr ''9877 JPY'' \<and>
   decimals_of ''9876.55'' = 2 \<and>
   read_fixed ''9876.55'' = 197531 / 20 \<and>
   round_half_away 2 (632099 / 64) = 197531 / 20 \<and>
   list_all is_decimal_char ''9876.55''"
proof -
  have on: "online ex_e1" by (simp add: ex_e1_def)
  have off: "\<not> online ex_offline" by (simp add: ex_offline_def)
  have usd: "online ex_e1 \<and> ex_usd \<in> set (currency_config (backend ex_w0)) \<and> cc_is_active ex_usd \<and>
      (\<forall>r' \<in> set (currency_config (backend ex_w0)). cc_code r' = cc_code ex_usd \<longrightarrow> r' = ex_usd) \<and>
      (cc_decimal_places ex_usd = Some 2 \<or> cc_decimal_places ex_usd = None \<and> (2::nat) = 0)"
    by code_simp
  have chf: "online ex_e1 \<and> ex_chf \<in> set (currency_config (backend ex_w0)) \<and> cc_is_active ex_chf \<and>
      (\<forall>r' \<in> set (currency_config (backend ex_w0)). cc_code r' = cc_code ex_chf \<longrightarrow> r' = ex_chf) \<and>
      (cc_decimal_places ex_chf = Some 2 \<or> cc_decimal_places ex_chf = None \<and> (2::nat) = 0)"
    by code_simp
  have xts: "online ex_e1 \<and> ex_xts \<in> set (currency_config (backend ex_fine)) \<and> cc_is_active ex_xts \<and>
      (\<forall>r' \<in> set (currency_config (backend ex_fine)). cc_code r' = cc_code ex_xts \<longrightarrow> r' = ex_xts) \<and>
      (cc_decimal_places ex_xts = Some 101 \<or> cc_decimal_places ex_xts = None \<and> (101::nat) = 0)"
    by code_simp
  have jpy: "online ex_e1 \<and> ex_jpy \<in> set (currency_config (backend ex_fine)) \<and> cc_is_active ex_jpy \<and>
      (\<forall>r' \<in> set (currency_config (backend ex_fine)). cc_code r' = cc_code ex_jpy \<longrightarrow> r' = ex_jpy) \<and>
      (cc_decimal_places ex_jpy = Some 0 \<or> cc_decimal_places ex_jpy = None \<and> (0::nat) = 0)"
    by code_simp
  have gbp: "online ex_e1 \<and>
      (\<forall>r \<in> set (currency_config (backend ex_w0)). cc_is_active r \<longrightarrow> cc_code r \<noteq> ''GBP'')"
    by code_simp
  have fields: "cc_code ex_usd = ''USD'' \<and> cc_symbol ex_usd = ''$'' \<and>
      cc_symbol_position ex_usd = Some before \<and>
      cc_code ex_chf = ''CHF'' \<and> cc_symbol ex_chf = ''CHF'' \<and>
      cc_symbol_position ex_chf = Some after \<and>
      cc_code ex_xts = ''XTS'' \<and> cc_decimal_places ex_xts = Some 101 \<and>
      cc_code ex_jpy = ''JPY'' \<and> cc_symbol ex_jpy = ''JPY'' \<and>
      cc_symbol_position ex_jpy = None \<and> cc_decimal_places ex_jpy = None"
    by (simp add: ex_usd_def ex_chf_def ex_xts_def ex_jpy_def)
  have two: "(2::nat) \<le> 100 \<and> \<bar>632099 / 64 :: rat\<bar> < 10 ^ 21" by simp
  have none: "(0::nat) \<le> 100 \<and> \<bar>632099 / 64 :: rat\<bar> < 10 ^ 21" by simp
  have many: "(100::nat) < 101" by simp
  have small: "\<bar>632099 / 64 :: rat\<bar> < 10 ^ 21" by simp
  have eighth: "\<bar>- (1 / 8) :: rat\<bar> < 10 ^ 21" by simp
  have large: "(10::rat) ^ 21 \<le> \<bar>10 ^ 21\<bar>" by simp
  have rendered: "fixed_notation (632099 / 64) 2 = ''9876.55''"
    by (simp add: fixed_notation_def digits.simps low_digits.simps digit_char_def
          floor_rat_numeral_div)
  have whole: "fixed_notation (632099 / 64) 0 = ''9877''"
    by (simp add: fixed_notation_def digits.simps digit_char_def floor_rat_numeral_div)
  have tie: "fixed_notation (- (1 / 8)) 2 = ''-0.13''"
    by (simp add: fixed_notation_def digits.simps low_digits.simps digit_char_def
          floor_rat_numeral_div)
  have sci: "ex_toString \<bar>10 ^ 21\<bar> = ''1e+21''"
    by (simp add: ex_toString_def)
  have rounded: "round_half_away 2 (632099 / 64) = 197531 / 20"
    by code_simp
  have failed: "fst (formatCurrency ex_toString ex_offline (Finite (632099 / 64)) ''USD'' ex_w0)
      = Inl FetchError"
    using off
    by (rule format_currency [where toString = ex_toString and e = ex_offline
          and amount = "Finite (632099 / 64)" and c = "''USD''" and w = ex_w0,
          THEN conjunct1, THEN mp])
  have "fst (formatCurrency ex_toString ex_e1 (Finite (632099 / 64)) (cc_code ex_usd) ex_w0) =
      Inr (if cc_symbol_position ex_usd = Some before
           then cc_symbol ex_usd @ fixed_notation (632099 / 64) 2
           else fixed_notation (632099 / 64) 2 @ '' '' @ cc_symbol ex_usd)"
    using two
    by (rule format_currency [where toString = ex_toString and e = ex_e1 and w = ex_w0
          and r = ex_usd and f = 2 and x = "632099 / 64",
          THEN conjunct2, THEN conjunct1, THEN mp, OF usd, THEN conjunct2, THEN conjunct1, THEN mp])
  then have dollars: "fst (formatCurrency ex_toString ex_e1 (Finite (632099 / 64)) ''USD'' ex_w0)
      = Inr ''$9876.55''"
    by (simp add: fields rendered)
  have "fst (formatCurrency ex_toString ex_e1 (Finite (632099 / 64)) (cc_code ex_chf) ex_w0) =
      Inr (if cc_symbol_position ex_chf = Some before
           then cc_symbol ex_chf @ fixed_notation (632099 / 64) 2
           else fixed_notation (632099 / 64) 2 @ '' '' @ cc_symbol ex_chf)"
    using two
    by (rule format_currency [where toString = ex_toString and e = ex_e1 and w = ex_w0
          and r = ex_chf and f = 2 and x = "632099 / 64",
          THEN conjunct2, THEN conjunct1, THEN mp, OF chf, THEN conjunct2, THEN conjunct1, THEN mp])
  then have francs: "fst (formatCurrency ex_toString ex_e1 (Finite (632099 / 64)) ''CHF'' ex_w0)
      = Inr ''9876.55 CHF''"
    by (simp add: fields rendered)
  have "fst (formatCurrency ex_toString ex_e1 (Finite (632099 / 64)) (cc_code ex_xts) ex_fine)
      = Inl RangeError"
    using many
    by (rule format_currency [where toString = ex_toString and e = ex_e1 and w = ex_fine
          and r = ex_xts and f = 101 and amount = "Finite (632099 / 64)",
          THEN conjunct2, THEN conjunct1, THEN mp, OF xts, THEN conjunct1, THEN mp])
  then have range: "fst (formatCurrency ex_toString ex_e1 (Finite (632099 / 64)) ''XTS'' ex_fine)
      = Inl RangeError"
    by (simp add: fields)
  have "fst (formatCurrency ex_toString ex_e1 (Finite (632099 / 64)) (cc_code ex_jpy) ex_fine) =
      Inr (if cc_symbol_position ex_jpy = Some before
           then cc_symbol ex_jpy @ fixed_notation (632099 / 64) 0
           else fixed_notation (632099 / 64) 0 @ '' '' @ cc_symbol ex_jpy)"
    using none
    by (rule format_currency [where toString = ex_toString and e = ex_e1 and w = ex_fine
          and r = ex_jpy and f = 0 and x = "632099 / 64",
          THEN conjunct2, THEN conjunct1, THEN mp, OF jpy, THEN conjunct2, THEN conjunct1, THEN mp])
  then have yen: "fst (formatCurrency ex_toString ex_e1 (Finite (632099 / 64)) ''JPY'' ex_fine)
      = Inr ''9877 JPY''"
    by (simp add: fields whole)
  have "fst (formatCurrency ex_toString ex_e1 (Finite (632099 / 64)) ''GBP'' ex_w0)
      = Inr (''GBP'' @ '' '' @ fixed_notation (632099 / 64) 2)"
    using small
    by (rule format_currency [where toString = ex_toString and e = ex_e1 and w = ex_w0
          and c = "''GBP''" and x = "632099 / 64",
          THEN conjunct2, THEN conjunct2, THEN conjunct1, THEN mp, OF gbp, THEN conjunct1, THEN mp])
  then have pounds: "fst (formatCurrency ex_toString ex_e1 (Finite (632099 / 64)) ''GBP'' ex_w0)
      = Inr ''GBP 9876.55''"
    by (simp add: rendered)
  have "fst (formatCurrency ex_toString ex_e1 (Finite (- (1 / 8))) ''GBP'' ex_w0)
      = Inr (''GBP'' @ '' '' @ fixed_notation (- (1 / 8)) 2)"
    using eighth
    by (rule format_currency [where toString = ex_toString and e = ex_e1 and w = ex_w0
          and c = "''GBP''" and x = "- (1 / 8)",
          THEN conjunct2, THEN conjunct2, THEN conjunct1, THEN mp, OF gbp, THEN conjunct1, THEN mp])
  then have debt: "fst (formatCurrency ex_toString ex_e1 (Finite (- (1 / 8))) ''GBP'' ex_w0)
      = Inr ''GBP -0.13''"
    by (simp only: tie) simp
  have "fst (formatCurrency ex_toString ex_e1 (Finite (10 ^ 21)) ''GBP'' ex_w0)
      = Inr (''GBP'' @ '' '' @ (if (10::rat) ^ 21 < 0 then ''-'' else []) @ ex_toString \<bar>10 ^ 21\<bar>)"
    using large
    by (rule format_currency [where toString = ex_toString and e = ex_e1 and w = ex_w0
          and c = "''GBP''" and x = "10 ^ 21",
          THEN conjunct2, THEN conjunct2, THEN conjunct1, THEN mp, OF gbp,
          THEN conjunct2, THEN conjunct1, THEN mp])
  then have huge: "fst (formatCurrency ex_toString ex_e1 (Finite (10 ^ 21)) ''GBP'' ex_w0)
      = Inr ''GBP 1e+21''"
    by (simp only: sci) simp
  have nan: "fst (formatCurrency ex_toString ex_e1 NaN ''GBP'' ex_w0) = Inr (''GBP'' @ '' NaN'')"
    by (rule format_currency [where toString = ex_toString and e = ex_e1 and w = ex_w0
          and c = "''GBP''",
          THEN conjunct2, THEN conjunct2, THEN conjunct1, THEN mp, OF gbp,
          THEN conjunct2, THEN conjunct2])
  have "decimals_of (fixed_notation (632099 / 64) 2) = 2 \<and>
      read_fixed (fixed_notation (632099 / 64) 2) = round_half_away 2 (632099 / 64) \<and>
      list_all is_decimal_char (fixed_notation (632099 / 64) 2)"
    by (rule format_currency [where x = "632099 / 64" and g = 2,
          THEN conjunct2, THEN conjunct2, THEN conjunct2])
  then have pins: "decimals_of ''9876.55'' = 2 \<and> read_fixed ''9876.55'' = 197531 / 20 \<and>
      list_all is_decimal_char ''9876.55''"
    by (simp only: rendered rounded)
  from nan have nan': "fst (formatCurrency ex_toString ex_e1 NaN ''GBP'' ex_w0) = Inr ''GBP NaN''"
    by simp
  show ?thesis
    using on off failed dollars francs pounds debt huge nan' range yen pins rounded fields
    by blast
qed

text \<open>
  The claim as written fails in three ways. The path for an unknown code fails when the
  list of currencies cannot be fetched; a known code whose record asks for 101 decimal
  places, which the check \<open>decimal_places \<ge> 0\<close> admits, gets a \<^verbatim>\<open>RangeError\<close> and no
  string; and the amount \<open>10\<^sup>2\<^sup>1\<close> is not rendered to two decimal places.
\<close>

theorem format_currency_counterexample:
  "fst (formatCurrency ex_toString ex_offline (Finite (2469 / 2)) ''XXX'' ex_w0) = Inl FetchError \<and>
   map cc_code (filter cc_is_active (currency_config (backend ex_fine))) = [''USD'', ''XTS'', ''JPY''] \<and>
   cc_decimal_places ex_xts = Some 101 \<and>
   fst (formatCurrency ex_toString ex_e1 (Finite (2469 / 2)) ''XTS'' ex_fine) = Inl RangeError \<and>
   cc_decimal_places ex_usd = Some 2 \<and>
   fst (formatCurrency ex_toString ex_e1 (Finite (10 ^ 21)) ''USD'' ex_w0) = Inr ''$1e+21''"
  by code_simp

section \<open>Discount conditions and the priced total\<close>


lemma apply_discounts_skip:
  "\<not> conditions_hold d cx \<Longrightarrow>
   apply_discounts cx subtotal (d # ds) acc = apply_discounts cx subtotal ds acc"
  by (cases acc) simp

text \<open>
  C9. A discount's conditions hold exactly when every condition of its list matches, and
  the pricing pass skips a discount whose conditions do not hold. A condition on the
  payment method, the customer tier, the card type or the bank name does not match a
  context in which that field is absent, whatever its operator and value.
\<close>

theorem discount_conditions_conjunctive:
  "(conditions_hold d cx \<longleftrightarrow> (\<forall>c \<in> set (d_conditions d). matches c cx)) \<and>
   (\<not> conditions_hold d cx \<longrightarrow>
      apply_discounts cx subtotal (d # ds) acc = apply_discounts cx subtotal ds acc) \<and>
   (dc_type c = payment_method \<and> cx_paymentMethod cx = None \<longrightarrow> \<not> matches c cx) \<and>
   (dc_type c = customer_tier \<and> cx_customerTier cx = None \<longrightarrow> \<not> matches c cx) \<and>
   (dc_type c = card_type \<and> cx_cardType cx = None \<longrightarrow> \<not> matches c cx) \<and>
   (dc_type c = bank_name \<and> cx_bankName cx = None \<longrightarrow> \<not> matches c cx)"
proof -
  have all: "conditions_hold d cx \<longleftrightarrow> (\<forall>c \<in> set (d_conditions d). matches c cx)"
    by (simp add: conditions_hold_def list_all_iff)
  have absent: "\<not> match_field c None"
    by (simp add: match_field_def)
  have "dc_type c = payment_method \<and> cx_paymentMethod cx = None \<longrightarrow> \<not> matches c cx"
    using absent by (simp add: matches_def)
  moreover have "dc_type c = customer_tier \<and> cx_customerTier cx = None \<longrightarrow> \<not> matches c cx"
    using absent by (simp add: matches_def)
  moreover have "dc_type c = card_type \<and> cx_cardType cx = None \<longrightarrow> \<not> matches c cx"
    using absent by (simp add: matches_def)
  moreover have "dc_type c = bank_name \<and> cx_bankName cx = None \<longrightarrow> \<not> matches c cx"
    using absent by (simp add: matches_def)
  ultimately show ?thesis
    using all apply_discounts_skip by blast
qed

theorem discount_conditions_conjunctive_witness:
  "conditions_hold ex_ten_percent ex_cart \<and>
   matches ex_min_amount ex_cart \<and>
   dc_type ex_visa = card_type \<and> cx_cardType ex_cart = None \<and> \<not> matches ex_visa ex_cart \<and>
   ex_visa \<in> set (d_conditions ex_card_discount) \<and>
   \<not> conditions_hold ex_card_discount ex_cart \<and>
   apply_discounts ex_cart 150 [ex_card_discount] (0, [], []) = (0, [], []) \<and>
   \<not> matches (ex_visa\<lparr>dc_type := payment_method\<rparr>) (ex_cart\<lparr>cx_paymentMethod := None\<rparr>) \<and>
   \<not> matches (ex_visa\<lparr>dc_type := customer_tier\<rparr>) ex_cart \<and>
   \<not> matches (ex_visa\<lparr>dc_type := bank_name\<rparr>) ex_cart"
proof -
  have holds: "conditions_hold ex_ten_percent ex_cart" by code_simp
  have card: "dc_type ex_visa = card_type \<and> cx_cardType ex_cart = None"
    by (simp add: ex_visa_def ex_cart_def)
  have member: "ex_visa \<in> set (d_conditions ex_card_discount)"
    by (simp add: ex_card_discount_def)
  have pay: "dc_type (ex_visa\<lparr>dc_type := payment_method\<rparr>) = payment_method \<and>
      cx_paymentMethod (ex_cart\<lparr>cx_paymentMethod := None\<rparr>) = None"
    by simp
  have tier: "dc_type (ex_visa\<lparr>dc_type := customer_tier\<rparr>) = customer_tier \<and>
      cx_customerTier ex_cart = None"
    by (simp add: ex_cart_def)
  have bank: "dc_type (ex_visa\<lparr>dc_type := bank_name\<rparr>) = bank_name \<and> cx_bankName ex_cart = None"
    by (simp add: ex_cart_def)
  have no_visa: "\<not> matches ex_visa ex_cart"
    using discount_conditions_conjunctive [of _ ex_cart _ _ _ ex_visa] card by blast
  then have fails: "\<not> conditions_hold ex_card_discount ex_cart"
    using discount_conditions_conjunctive [of ex_card_discount ex_cart] member by blast
  then have "apply_discounts ex_cart 150 [ex_card_discount] (0, [], [])
      = apply_discounts ex_cart 150 [] (0, [], [])"
    using discount_conditions_conjunctive [of ex_card_discount ex_cart 150 "[]" "(0, [], [])"]
    by blast
  then have skipped: "apply_discounts ex_cart 150 [ex_card_discount] (0, [], []) = (0, [], [])"
    by (simp only: apply_discounts.simps(1))
  have "matches ex_min_amount ex_cart"
  proof -
    have "\<forall>c \<in> set (d_conditions ex_ten_percent). matches c ex_cart"
      using discount_conditions_conjunctive [of ex_ten_percent ex_cart] holds by blast
    then show ?thesis by (simp add: ex_ten_percent_def)
  qed
  moreover have "\<not> matches (ex_visa\<lparr>dc_type := payment_method\<rparr>) (ex_cart\<lparr>cx_paymentMethod := None\<rparr>)"
    using discount_conditions_conjunctive
      [of _ "ex_cart\<lparr>cx_paymentMethod := None\<rparr>" _ _ _ "ex_visa\<lparr>dc_type := payment_method\<rparr>"] pay
    by blast
  moreover have "\<not> matches (ex_visa\<lparr>dc_type := customer_tier\<rparr>) ex_cart"
    using discount_conditions_conjunctive [of _ ex_cart _ _ _ "ex_visa\<lparr>dc_type := customer_tier\<rparr>"] tier
    by blast
  moreover have "\<not> matches (ex_visa\<lparr>dc_type := bank_name\<rparr>) ex_cart"
    using discount_conditions_conjunctive [of _ ex_cart _ _ _ "ex_visa\<lparr>dc_type := bank_name\<rparr>"] bank
    by blast
  ultimately show ?thesis
    using holds card member no_visa fails skipped by blast
qed

text \<open>
  C4. For every structurally valid cart and every list of discounts \<^verbatim>\<open>price\<close> returns a
  snapshot, its tax is the tax rate applied to the subtotal less the discounts, and its
  total is \<open>subtotal - discountAmount + taxAmount\<close> floored at zero, hence never negative.
\<close>

theorem price_total_nonnegative:
  assumes valid: "valid_cart cx"
  shows "\<exists>s. price cx discounts = Inr s \<and>
           0 \<le> pc_total s \<and>
           pc_subtotal s = raw_subtotal (cx_lines cx) \<and>
           pc_taxAmount s = (pc_subtotal s - pc_discountAmount s) * cx_taxRate cx / 100 \<and>
           pc_total s = max 0 (pc_subtotal s - pc_discountAmount s + pc_taxAmount s)"
proof -
  obtain amount applied gifts where
    pass: "apply_discounts cx (raw_subtotal (cx_lines cx)) discounts (0, [], [])
             = (amount, applied, gifts)"
    by (cases "apply_discounts cx (raw_subtotal (cx_lines cx)) discounts (0, [], [])") auto
  let ?subtotal = "raw_subtotal (cx_lines cx)"
  let ?tax = "(?subtotal - amount) * cx_taxRate cx / 100"
  let ?s = "\<lparr>pc_subtotal = ?subtotal, pc_discountAmount = amount, pc_taxAmount = ?tax,
             pc_total = max 0 (?subtotal - amount + ?tax),
             pc_appliedDiscounts = applied, pc_freeGifts = gifts\<rparr>"
  have "price cx discounts = Inr ?s"
    using valid by (simp add: price_def Let_def pass)
  moreover have "0 \<le> pc_total ?s" by simp
  ultimately show ?thesis by simp
qed

theorem price_total_nonnegative_witness:
  "valid_cart ex_cart \<and>
   (\<exists>s. price ex_cart [ex_ten_percent, ex_card_discount] = Inr s \<and> 0 \<le> pc_total s \<and>
      pc_total s = max 0 (pc_subtotal s - pc_discountAmount s + pc_taxAmount s)) \<and>
   map_sum (\<lambda>x. x) pc_total (price ex_cart [ex_ten_percent, ex_card_discount]) = Inr (2349 / 16) \<and>
   map_sum (\<lambda>x. x) pc_discountAmount (price ex_cart [ex_everything_off, ex_everything_off]) = Inr 300 \<and>
   map_sum (\<lambda>x. x) pc_total (price ex_cart [ex_everything_off, ex_everything_off]) = Inr 0"
proof -
  have valid: "valid_cart ex_cart" by code_simp
  have total: "map_sum (\<lambda>x. x) pc_total (price ex_cart [ex_ten_percent, ex_card_discount]) = Inr (2349 / 16)"
    by code_simp
  have off: "map_sum (\<lambda>x. x) pc_discountAmount (price ex_cart [ex_everything_off, ex_everything_off]) = Inr 300"
    by code_simp
  have floored: "map_sum (\<lambda>x. x) pc_total (price ex_cart [ex_everything_off, ex_everything_off]) = Inr 0"
    by code_simp
  from price_total_nonnegative [OF valid, of "[ex_ten_percent, ex_card_discount]"]
  have "\<exists>s. price ex_cart [ex_ten_percent, ex_card_discount] = Inr s \<and> 0 \<le> pc_total s \<and>
      pc_total s = max 0 (pc_subtotal s - pc_discountAmount s + pc_taxAmount s)"
    by blast
  with valid total off floored show ?thesis by blast
qed

end
